theory Spec2Isabelle
  imports Complex_Main "HOL-Library.Sublist"
begin

section \<open>Python values and exceptions\<close>

text \<open>
  The chat backend of \<^verbatim>\<open>app.py\<close> is dynamically typed: every field of a request and every
  part of the AI service's answer is whatever \<^verbatim>\<open>json.loads\<close> produced. The model keeps that:
  a value is a JSON value, \<open>JNull\<close> being Python's \<^verbatim>\<open>None\<close>.

  A Python \<^verbatim>\<open>str\<close> is represented by its UTF-8 encoding, one \<open>char\<close> per octet. Equality,
  concatenation, \<^verbatim>\<open>startswith\<close> and substring tests agree with Python's on this
  representation; \<^verbatim>\<open>len\<close> and slices, which do not, occur in the source only inside log
  lines. \<^verbatim>\<open>bytes\<close> are octets as well. A finite float is represented by its value.
\<close>

type_synonym bytes = "char list"

datatype json =
    JNull
  | JBool bool
  | JInt int
  | JFloat rat
  | JStr string
  | JArr "json list"
  | JObj "(string \<times> json) list"

text \<open>
  The classes of the exceptions that occur. \<open>RequestException\<close> stands for
  \<^verbatim>\<open>requests.exceptions.RequestException\<close> and those of its subclasses that have no
  constructor of their own (connection errors, timeouts); \<open>HTTPError\<close> is the subclass that
  \<^verbatim>\<open>raise_for_status\<close> raises. \<open>OtherException\<close> is any other subclass of
  \<^verbatim>\<open>Exception\<close>. The string is \<^verbatim>\<open>str(e)\<close>.
\<close>

datatype exn_class =
    AttributeError
  | TypeError
  | KeyError
  | IndexError
  | ValueError
  | BinasciiError
  | RequestException
  | HTTPError
  | OtherException

datatype pyexn = PyExn exn_class string

fun exn_class_of :: "pyexn \<Rightarrow> exn_class" where
  "exn_class_of (PyExn c m) = c"

fun exn_str :: "pyexn \<Rightarrow> string" where
  "exn_str (PyExn c m) = m"

definition is_RequestException :: "pyexn \<Rightarrow> bool" where
  "is_RequestException e = (exn_class_of e = RequestException \<or> exn_class_of e = HTTPError)"

definition ebind :: "'e + 'a \<Rightarrow> ('a \<Rightarrow> 'e + 'b) \<Rightarrow> 'e + 'b" where
  "ebind m f = (case m of Inl e \<Rightarrow> Inl e | Inr x \<Rightarrow> f x)"

definition apostrophe :: char where
  "apostrophe = CHR 0x27"

definition quoted :: "string \<Rightarrow> string" where
  "quoted s = apostrophe # s @ [apostrophe]"

fun py_type_name :: "json \<Rightarrow> string" where
  "py_type_name JNull = ''NoneType''"
| "py_type_name (JBool b) = ''bool''"
| "py_type_name (JInt i) = ''int''"
| "py_type_name (JFloat r) = ''float''"
| "py_type_name (JStr s) = ''str''"
| "py_type_name (JArr xs) = ''list''"
| "py_type_name (JObj kvs) = ''dict''"

text \<open>Truth value testing, as \<^verbatim>\<open>if x:\<close> and \<^verbatim>\<open>x and y\<close> do it.\<close>

fun truthy :: "json \<Rightarrow> bool" where
  "truthy JNull = False"
| "truthy (JBool b) = b"
| "truthy (JInt i) = (i \<noteq> 0)"
| "truthy (JFloat r) = (r \<noteq> 0)"
| "truthy (JStr s) = (s \<noteq> [])"
| "truthy (JArr xs) = (xs \<noteq> [])"
| "truthy (JObj kvs) = (kvs \<noteq> [])"

definition no_attribute :: "json \<Rightarrow> string \<Rightarrow> pyexn" where
  "no_attribute v attr =
     PyExn AttributeError
       (quoted (py_type_name v) @ '' object has no attribute '' @ quoted attr)"

definition not_subscriptable :: "json \<Rightarrow> pyexn" where
  "not_subscriptable v =
     PyExn TypeError (quoted (py_type_name v) @ '' object is not subscriptable'')"

text \<open>\<^verbatim>\<open>x.get(k)\<close>: the method of a dict, with \<^verbatim>\<open>None\<close> for a missing key.\<close>

fun py_get :: "json \<Rightarrow> string \<Rightarrow> pyexn + json" where
  "py_get (JObj kvs) k = (case map_of kvs k of None \<Rightarrow> Inr JNull | Some v \<Rightarrow> Inr v)"
| "py_get v k = Inl (no_attribute v ''get'')"

text \<open>\<^verbatim>\<open>x[k]\<close> with a string key.\<close>

fun py_getitem_str :: "json \<Rightarrow> string \<Rightarrow> pyexn + json" where
  "py_getitem_str (JObj kvs) k =
     (case map_of kvs k of None \<Rightarrow> Inl (PyExn KeyError (quoted k)) | Some v \<Rightarrow> Inr v)"
| "py_getitem_str (JArr xs) k =
     Inl (PyExn TypeError ''list indices must be integers or slices, not str'')"
| "py_getitem_str (JStr s) k =
     Inl (PyExn TypeError (''string indices must be integers, not '' @ quoted ''str''))"
| "py_getitem_str v k = Inl (not_subscriptable v)"

text \<open>
  The first code point of a string in UTF-8: as many octets as its first octet announces.
\<close>

definition utf8_width :: "char \<Rightarrow> nat" where
  "utf8_width c =
     (if (of_char c :: nat) < 0x80 then 1
      else if (of_char c :: nat) < 0xE0 then 2
      else if (of_char c :: nat) < 0xF0 then 3 else 4)"

text \<open>\<^verbatim>\<open>x[0]\<close>. A dict from JSON has string keys only, so the key 0 is missing.\<close>

fun py_getitem_zero :: "json \<Rightarrow> pyexn + json" where
  "py_getitem_zero (JArr xs) =
     (case xs of [] \<Rightarrow> Inl (PyExn IndexError ''list index out of range'') | x # _ \<Rightarrow> Inr x)"
| "py_getitem_zero (JStr s) =
     (case s of [] \<Rightarrow> Inl (PyExn IndexError ''string index out of range'')
      | c # _ \<Rightarrow> Inr (JStr (take (utf8_width c) s)))"
| "py_getitem_zero (JObj kvs) = Inl (PyExn KeyError ''0'')"
| "py_getitem_zero v = Inl (not_subscriptable v)"

text \<open>\<^verbatim>\<open>x.startswith(p)\<close>: a method of str.\<close>

fun py_startswith :: "json \<Rightarrow> string \<Rightarrow> pyexn + bool" where
  "py_startswith (JStr s) p = Inr (prefix p s)"
| "py_startswith v p = Inl (no_attribute v ''startswith'')"

text \<open>
  \<^verbatim>\<open>x[:50]\<close>, evaluated for the log line of the message branch. Only whether it raises
  matters: str and list have slices, a dict looks the slice up as a key, nothing else is
  subscriptable.
\<close>

fun py_slice_raises :: "json \<Rightarrow> pyexn option" where
  "py_slice_raises (JStr s) = None"
| "py_slice_raises (JArr xs) = None"
| "py_slice_raises (JObj kvs) = Some (PyExn KeyError ''slice(None, 50, None)'')"
| "py_slice_raises v = Some (not_subscriptable v)"

text \<open>Decimal digits of a number, for \<^verbatim>\<open>str\<close> of an int.\<close>

fun show_nat :: "nat \<Rightarrow> string" where
  "show_nat n =
     (if n < 10 then [char_of (48 + n)]
      else show_nat (n div 10) @ [char_of (48 + n mod 10)])"

declare show_nat.simps [simp del]

definition show_int :: "int \<Rightarrow> string" where
  "show_int i = (if i < 0 then CHR ''-'' # show_nat (nat (- i)) else show_nat (nat i))"

text \<open>
  \<^verbatim>\<open>str(x)\<close>, which is what an f-string interpolates. The \<^verbatim>\<open>repr\<close> of a float, a list or
  a dict is not computed here: it is taken from the runtime, as the function \<open>rp\<close>.
\<close>

fun py_str :: "(json \<Rightarrow> string) \<Rightarrow> json \<Rightarrow> string" where
  "py_str rp JNull = ''None''"
| "py_str rp (JBool b) = (if b then ''True'' else ''False'')"
| "py_str rp (JInt i) = show_int i"
| "py_str rp (JStr s) = s"
| "py_str rp v = rp v"

section \<open>The collaborators\<close>

text \<open>
  What the program calls and does not define: the HTTP client, the two document parsers,
  the base64 codec, and the API key read from the process environment at start
  (\<^verbatim>\<open>os.environ.get\<close> gives \<^verbatim>\<open>None\<close> when it is not set).

  A parser either raises or gives the document's parts. For a PDF these are its pages, each
  one the result of \<^verbatim>\<open>page.extract_text()\<close>: an exception, \<^verbatim>\<open>None\<close> or a string. For a
  DOCX they are the texts of its paragraphs.
\<close>

record http_request =
  url :: string
  headers :: "(string \<times> string) list"
  payload :: json

text \<open>
  The result of \<^verbatim>\<open>requests.post\<close>: an exception, or a response with its status code and
  what \<^verbatim>\<open>response.json()\<close> gives on it (an exception when the body is not JSON).
\<close>

datatype http_result =
    PostRaises pyexn
  | Response nat "pyexn + json"

record env =
  gemini_api_key :: "string option"
  requests_post :: "http_request \<Rightarrow> http_result"
  pdf_reader :: "bytes \<Rightarrow> pyexn + (pyexn + string option) list"
  docx_document :: "bytes \<Rightarrow> pyexn + string list"
  b64decode :: "string \<Rightarrow> pyexn + bytes"
  py_repr :: "json \<Rightarrow> string"

section \<open>Helper functions for file parsing\<close>

text \<open>
  The loop of \<^verbatim>\<open>read_pdf_text\<close>: \<^verbatim>\<open>text += page.extract_text() or ""\<close> for each page, in
  page order.
\<close>

fun pdf_pages_text :: "string \<Rightarrow> (pyexn + string option) list \<Rightarrow> pyexn + string" where
  "pdf_pages_text text [] = Inr text"
| "pdf_pages_text text (Inl e # pages) = Inl e"
| "pdf_pages_text text (Inr None # pages) = pdf_pages_text (text @ '''') pages"
| "pdf_pages_text text (Inr (Some t) # pages) =
     pdf_pages_text (text @ (if t \<noteq> [] then t else '''')) pages"

text \<open>\<^verbatim>\<open>read_pdf_text\<close>: the text, or \<^verbatim>\<open>None\<close> on any exception.\<close>

definition read_pdf_text :: "env \<Rightarrow> bytes \<Rightarrow> string option" where
  "read_pdf_text env file_content_bytes =
     (case ebind (pdf_reader env file_content_bytes) (pdf_pages_text '''') of
        Inl e \<Rightarrow> None
      | Inr text \<Rightarrow> Some text)"

text \<open>The loop of \<^verbatim>\<open>read_docx_text\<close>: \<^verbatim>\<open>text += paragraph.text + "\n"\<close>.\<close>

fun docx_paragraphs_text :: "string \<Rightarrow> string list \<Rightarrow> string" where
  "docx_paragraphs_text text [] = text"
| "docx_paragraphs_text text (p # paragraphs) =
     docx_paragraphs_text (text @ p @ ''\<newline>'') paragraphs"

definition read_docx_text :: "env \<Rightarrow> bytes \<Rightarrow> string option" where
  "read_docx_text env file_content_bytes =
     (case docx_document env file_content_bytes of
        Inl e \<Rightarrow> None
      | Inr paragraphs \<Rightarrow> Some (docx_paragraphs_text '''' paragraphs))"

section \<open>Gemini API call functions\<close>

definition gemini_url :: "env \<Rightarrow> string \<Rightarrow> string" where
  "gemini_url env model =
     ''https://generativelanguage.googleapis.com/v1beta/models/'' @ model
       @ '':generateContent?key=''
       @ (case gemini_api_key env of None \<Rightarrow> ''None'' | Some k \<Rightarrow> k)"

definition json_headers :: "(string \<times> string) list" where
  "json_headers = [(''Content-Type'', ''application/json'')]"

text \<open>
  \<^verbatim>\<open>response.raise_for_status()\<close> of the HTTP client: it raises for the client and server
  error codes, 400 to 599, and for no other status.
\<close>

definition raise_for_status :: "nat \<Rightarrow> pyexn option" where
  "raise_for_status status =
     (if 400 \<le> status \<and> status < 500
      then Some (PyExn HTTPError (show_nat status @ '' Client Error''))
      else if 500 \<le> status \<and> status < 600
      then Some (PyExn HTTPError (show_nat status @ '' Server Error''))
      else None)"

text \<open>
  The condition \<^verbatim>\<open>result.get('candidates') and result['candidates'][0].get('content') and
  result['candidates'][0]['content'].get('parts')\<close>, evaluated from the left; a falsy
  operand ends it, an exception in an operand leaves it.
\<close>

definition has_parts :: "json \<Rightarrow> pyexn + bool" where
  "has_parts result =
     ebind (py_get result ''candidates'') (\<lambda>candidates.
       if \<not> truthy candidates then Inr False
       else
         ebind (py_getitem_str result ''candidates'') (\<lambda>cs.
         ebind (py_getitem_zero cs) (\<lambda>c0.
         ebind (py_get c0 ''content'') (\<lambda>content.
           if \<not> truthy content then Inr False
           else
             ebind (py_getitem_str result ''candidates'') (\<lambda>cs'.
             ebind (py_getitem_zero cs') (\<lambda>c0'.
             ebind (py_getitem_str c0' ''content'') (\<lambda>content'.
             ebind (py_get content' ''parts'') (\<lambda>parts.
               Inr (truthy parts)))))))))"

text \<open>\<^verbatim>\<open>result['candidates'][0]['content']['parts'][0]['text']\<close>\<close>

definition first_text :: "json \<Rightarrow> pyexn + json" where
  "first_text result =
     ebind (py_getitem_str result ''candidates'') (\<lambda>cs.
     ebind (py_getitem_zero cs) (\<lambda>c0.
     ebind (py_getitem_str c0 ''content'') (\<lambda>content.
     ebind (py_getitem_str content ''parts'') (\<lambda>parts.
     ebind (py_getitem_zero parts) (\<lambda>p0.
       py_getitem_str p0 ''text'')))))"

text \<open>
  The body of the \<^verbatim>\<open>try\<close> that \<^verbatim>\<open>call_gemini_api\<close> and \<^verbatim>\<open>analyze_image_with_gemini\<close>
  share word for word, up to the string returned for an unexpected response structure:
  post, \<^verbatim>\<open>raise_for_status\<close>, \<^verbatim>\<open>response.json()\<close>, then the answer or that string.
\<close>

definition gemini_try :: "env \<Rightarrow> http_request \<Rightarrow> string \<Rightarrow> pyexn + json" where
  "gemini_try env req unexpected =
     (case requests_post env req of
        PostRaises e \<Rightarrow> Inl e
      | Response status body \<Rightarrow>
          (case raise_for_status status of
             Some e \<Rightarrow> Inl e
           | None \<Rightarrow>
               ebind body (\<lambda>result.
               ebind (has_parts result) (\<lambda>ok.
                 if ok then first_text result else Inr (JStr unexpected)))))"

text \<open>
  The two handlers after it: \<^verbatim>\<open>except requests.exceptions.RequestException\<close> first,
  \<^verbatim>\<open>except Exception\<close> second.
\<close>

definition gemini_except :: "string \<Rightarrow> string \<Rightarrow> pyexn + json \<Rightarrow> json" where
  "gemini_except no_connection internal r =
     (case r of
        Inr v \<Rightarrow> v
      | Inl e \<Rightarrow> if is_RequestException e then JStr no_connection else JStr internal)"

definition unexpected_response :: string where
  "unexpected_response =
     ''Sorry, I received an unexpected response from the AI. Please try again.''"

definition no_connection :: string where
  "no_connection =
     ''Sorry, I couldn't connect to the AI service. Please try again later.''"

definition internal_error :: string where
  "internal_error = ''An internal error occurred. Please try again.''"

definition text_payload :: "string \<Rightarrow> json" where
  "text_payload prompt =
     JObj [(''contents'',
       JArr [JObj [(''role'', JStr ''user''),
                   (''parts'', JArr [JObj [(''text'', JStr prompt)]])]])]"

text \<open>
  \<^verbatim>\<open>call_gemini_api(prompt, model)\<close>: the value returned, and the requests handed to
  \<^verbatim>\<open>requests.post\<close> on the way (always one).
\<close>

definition call_gemini_api :: "env \<Rightarrow> string \<Rightarrow> string \<Rightarrow> json \<times> http_request list" where
  "call_gemini_api env prompt model =
     (let req = \<lparr>url = gemini_url env model, headers = json_headers,
                 payload = text_payload prompt\<rparr>
      in (gemini_except no_connection internal_error (gemini_try env req unexpected_response),
          [req]))"

definition image_payload :: "json \<Rightarrow> json \<Rightarrow> json" where
  "image_payload base64_image mime_type =
     JObj [(''contents'',
       JArr [JObj [(''parts'',
         JArr [JObj [(''text'', JStr ''Analyze this medical image and provide:'')],
               JObj [(''text'', JStr ''1. **Description**: What the image shows'')],
               JObj [(''text'', JStr ''2. **Findings**: Notable observations'')],
               JObj [(''text'', JStr ''3. **Concerns**: Any potential issues'')],
               JObj [(''text'', JStr ''4. **Recommendations**: Suggested next steps'')],
               JObj [(''inlineData'',
                 JObj [(''mimeType'', mime_type), (''data'', base64_image)])]])]])]"

definition vision_unexpected_response :: string where
  "vision_unexpected_response =
     ''Sorry, I received an unexpected response from the AI Vision service. Please try again.''"

definition vision_no_connection :: string where
  "vision_no_connection =
     ''Sorry, I couldn't process the image with the AI service. Please try again later.''"

definition vision_internal_error :: string where
  "vision_internal_error =
     ''An internal error occurred during image analysis. Please try again.''"

definition analyze_image_with_gemini :: "env \<Rightarrow> json \<Rightarrow> json \<Rightarrow> json \<times> http_request list" where
  "analyze_image_with_gemini env base64_image mime_type =
     (let req = \<lparr>url = gemini_url env ''gemini-2.5-flash'', headers = json_headers,
                 payload = image_payload base64_image mime_type\<rparr>
      in (gemini_except vision_no_connection vision_internal_error
            (gemini_try env req vision_unexpected_response),
          [req]))"

section \<open>The prompt builders\<close>

definition text_content_prompt :: "string \<Rightarrow> string \<Rightarrow> string" where
  "text_content_prompt text_content file_name =
     ''Analyze the following medical report/text content from '' @ quoted file_name
       @ '' and provide:\<newline>''
       @ ''1. **Summary**: Brief overview of the findings\<newline>''
       @ ''2. **Key Metrics**: Important values and their significance\<newline>''
       @ ''3. **Potential Concerns**: Any abnormal values or findings\<newline>''
       @ ''4. **Recommendations**: Suggested next steps or actions\<newline>''
       @ ''\<newline>''
       @ ''Report content: '' @ text_content"

text \<open>
  \<^verbatim>\<open>analyze_text_content(text_content, file_name)\<close>. The file name is whatever the request
  carried, interpolated by the f-string.
\<close>

definition analyze_text_content :: "env \<Rightarrow> string \<Rightarrow> json \<Rightarrow> json \<times> http_request list" where
  "analyze_text_content env text_content file_name =
     call_gemini_api env (text_content_prompt text_content (py_str (py_repr env) file_name))
       ''gemini-2.5-flash''"

definition symptom_prompt :: "string \<Rightarrow> string" where
  "symptom_prompt user_message =
     ''The user is describing a health issue. Provide comprehensive information based on their description, covering the following aspects clearly and concisely, using markdown for readability:\<newline>''
       @ ''1.  **Symptoms:** List the symptoms associated with the described issue.\<newline>''
       @ ''2.  **Possible Diseases/Conditions:** Suggest potential diseases or conditions that match the symptoms.\<newline>''
       @ ''3.  **Home Remedies:** Suggest what action or food item can be taken at home to cure or feel better according to the disease.\<newline>''
       @ ''4.  **Dietary Advice:** Recommend what can be eaten or avoided to help manage or cure the condition.\<newline>''
       @ ''5.  **Medicines (General Advice):** Provide general types of over-the-counter or common medicines that might be used (stressing this is not medical advice and a doctor should be consulted).\<newline>''
       @ ''6.  **Exercises/Activities:** Suggest exercises or activities that could be beneficial, or those to avoid.\<newline>''
       @ ''7.  7. **Other Relevant Information:** Include any other important tips, precautions, or when to seek professional medical help.\<newline>''
       @ ''\<newline>''
       @ ''User's health issue: '' @ [CHR 0x22] @ user_message @ [CHR 0x22] @ ''\<newline>''"

section \<open>Decoding plain text\<close>

text \<open>
  \<^verbatim>\<open>bytes.decode('utf-8', errors='ignore')\<close>. The decoder reads one code point at a time. An
  octet that cannot start a code point is an error of length one; a sequence that breaks
  off is an error as long as its well-formed beginning; a sequence cut by the end of the
  input is an error up to the end. With \<^verbatim>\<open>errors='ignore'\<close> the octets of an error are
  skipped and decoding goes on behind them, so no input raises. The result is a str, here
  in its UTF-8 encoding: the octets of the well-formed sequences, in order.
\<close>

definition is_continuation :: "char \<Rightarrow> bool" where
  "is_continuation c = (0x80 \<le> (of_char c :: nat) \<and> (of_char c :: nat) < 0xC0)"

text \<open>
  The second octet of a sequence of three: a continuation octet, and neither an overlong
  encoding (after E0) nor a surrogate (after ED).
\<close>

definition second_of_three :: "char \<Rightarrow> char \<Rightarrow> bool" where
  "second_of_three ch ch2 =
     (is_continuation ch2 \<and>
      (if (of_char ch2 :: nat) < 0xA0 then (of_char ch :: nat) \<noteq> 0xE0
       else (of_char ch :: nat) \<noteq> 0xED))"

text \<open>
  The second octet of a sequence of four: a continuation octet, and neither an overlong
  encoding (after F0) nor a code point beyond U+10FFFF (after F4).
\<close>

definition second_of_four :: "char \<Rightarrow> char \<Rightarrow> bool" where
  "second_of_four ch ch2 =
     (is_continuation ch2 \<and>
      (if (of_char ch2 :: nat) < 0x90 then (of_char ch :: nat) \<noteq> 0xF0
       else (of_char ch :: nat) \<noteq> 0xF4))"

text \<open>
  One step of the decoder on the octet \<open>ch\<close> followed by \<open>s\<close>: the octets of the code
  point decoded (none when the step is an error), and how many octets of \<open>s\<close> the step
  covers besides \<open>ch\<close>.
\<close>

definition utf8_next :: "char \<Rightarrow> bytes \<Rightarrow> string \<times> nat" where
  "utf8_next ch s =
     (if (of_char ch :: nat) < 0x80 then ([ch], 0)
      else if (of_char ch :: nat) < 0xC2 then ([], 0)
      else if (of_char ch :: nat) < 0xE0 then
        (case s of
           [] \<Rightarrow> ([], 0)
         | ch2 # s2 \<Rightarrow> if is_continuation ch2 then ([ch, ch2], 1) else ([], 0))
      else if (of_char ch :: nat) < 0xF0 then
        (case s of
           [] \<Rightarrow> ([], 0)
         | ch2 # s2 \<Rightarrow>
             if \<not> second_of_three ch ch2 then ([], 0)
             else
               (case s2 of
                  [] \<Rightarrow> ([], 1)
                | ch3 # s3 \<Rightarrow>
                    if is_continuation ch3 then ([ch, ch2, ch3], 2) else ([], 1)))
      else if (of_char ch :: nat) < 0xF5 then
        (case s of
           [] \<Rightarrow> ([], 0)
         | ch2 # s2 \<Rightarrow>
             if \<not> second_of_four ch ch2 then ([], 0)
             else
               (case s2 of
                  [] \<Rightarrow> ([], 1)
                | ch3 # s3 \<Rightarrow>
                    if \<not> is_continuation ch3 then ([], 1)
                    else
                      (case s3 of
                         [] \<Rightarrow> ([], 2)
                       | ch4 # s4 \<Rightarrow>
                           if is_continuation ch4 then ([ch, ch2, ch3, ch4], 3)
                           else ([], 2))))
      else ([], 0))"

text \<open>The decoder's loop: step, keep what the step decoded, go on behind it.\<close>

fun utf8_decode_ignore :: "bytes \<Rightarrow> string" where
  "utf8_decode_ignore [] = []"
| "utf8_decode_ignore (ch # s) =
     fst (utf8_next ch s) @ utf8_decode_ignore (drop (snd (utf8_next ch s)) s)"

declare utf8_decode_ignore.simps [simp del]

section \<open>The request handler\<close>

text \<open>
  What a call of \<^verbatim>\<open>chat_api\<close> ends in: a response with its status code and JSON body, or
  an exception that leaves the function and reaches the web framework.
\<close>

datatype outcome =
    Responded nat json
  | Unhandled pyexn

definition docx_mime :: string where
  "docx_mime = ''application/vnd.openxmlformats-officedocument.wordprocessingml.document''"

definition pdf_not_extracted :: "string \<Rightarrow> string" where
  "pdf_not_extracted file_name =
     ''Could not extract text from PDF '' @ quoted file_name
       @ ''. Please ensure it's a readable PDF or describe its content in text.''"

definition docx_not_extracted :: "string \<Rightarrow> string" where
  "docx_not_extracted file_name =
     ''Could not extract text from DOCX '' @ quoted file_name
       @ ''. Please ensure it's a valid DOCX file or describe its content in text.''"

definition unsupported_file_type :: "string \<Rightarrow> string" where
  "unsupported_file_type file_type =
     ''Unsupported file type for analysis: '' @ file_type
       @ ''. Please upload a PDF, DOCX, image, or plain text file.''"

text \<open>
  \<^verbatim>\<open>base64.b64decode(x)\<close>: the codec takes a str (or bytes, which JSON does not have) and
  raises a TypeError on anything else.
\<close>

definition py_b64decode :: "env \<Rightarrow> json \<Rightarrow> pyexn + bytes" where
  "py_b64decode env v =
     (case v of
        JStr s \<Rightarrow> b64decode env s
      | _ \<Rightarrow>
          Inl (PyExn TypeError
            (''argument should be a bytes-like object or ASCII string, not ''
               @ quoted (py_type_name v))))"

text \<open>A call whose value becomes \<^verbatim>\<open>bot_response\<close>.\<close>

definition returned :: "json \<times> http_request list \<Rightarrow> (pyexn + json) \<times> http_request list" where
  "returned r = (Inr (fst r), snd r)"

text \<open>
  \<^verbatim>\<open>if extracted_text:\<close> and what follows it, for either document type: the text-content
  analysis when the extractor gave a non-empty text, the fixed message otherwise.
\<close>

definition analyze_extracted ::
  "env \<Rightarrow> string option \<Rightarrow> json \<Rightarrow> string \<Rightarrow> (pyexn + json) \<times> http_request list" where
  "analyze_extracted env extracted_text file_name not_extracted =
     (case extracted_text of
        None \<Rightarrow> (Inr (JStr not_extracted), [])
      | Some text \<Rightarrow>
          if text \<noteq> [] then returned (analyze_text_content env text file_name)
          else (Inr (JStr not_extracted), []))"

text \<open>The branch \<^verbatim>\<open>if file_data_b64 and file_type:\<close> of \<^verbatim>\<open>chat_api\<close>.\<close>

definition handle_file ::
  "env \<Rightarrow> json \<Rightarrow> json \<Rightarrow> json \<Rightarrow> (pyexn + json) \<times> http_request list" where
  "handle_file env file_data_b64 file_type file_name =
     (case py_b64decode env file_data_b64 of
        Inl e \<Rightarrow> (Inl e, [])
      | Inr file_content_bytes \<Rightarrow>
          (case py_startswith file_type ''image/'' of
             Inl e \<Rightarrow> (Inl e, [])
           | Inr is_image \<Rightarrow>
               if is_image then returned (analyze_image_with_gemini env file_data_b64 file_type)
               else if file_type = JStr ''application/pdf'' then
                 analyze_extracted env (read_pdf_text env file_content_bytes) file_name
                   (pdf_not_extracted (py_str (py_repr env) file_name))
               else if file_type = JStr docx_mime then
                 analyze_extracted env (read_docx_text env file_content_bytes) file_name
                   (docx_not_extracted (py_str (py_repr env) file_name))
               else if file_type = JStr ''text/plain'' then
                 returned (analyze_text_content env (utf8_decode_ignore file_content_bytes)
                   file_name)
               else
                 (Inr (JStr (unsupported_file_type (py_str (py_repr env) file_type))), [])))"

text \<open>The branch \<^verbatim>\<open>elif user_message:\<close>.\<close>

definition handle_message :: "env \<Rightarrow> json \<Rightarrow> (pyexn + json) \<times> http_request list" where
  "handle_message env user_message =
     (case py_slice_raises user_message of
        Some e \<Rightarrow> (Inl e, [])
      | None \<Rightarrow>
          returned (call_gemini_api env (symptom_prompt (py_str (py_repr env) user_message))
            ''gemini-2.5-flash''))"

text \<open>The body of the \<^verbatim>\<open>try\<close> up to the value of \<^verbatim>\<open>bot_response\<close>.\<close>

definition chat_try ::
  "env \<Rightarrow> json \<Rightarrow> json \<Rightarrow> json \<Rightarrow> json \<Rightarrow> (pyexn + json) \<times> http_request list" where
  "chat_try env user_message file_data_b64 file_type file_name =
     (if truthy file_data_b64 \<and> truthy file_type
      then handle_file env file_data_b64 file_type file_name
      else if truthy user_message then handle_message env user_message
      else (Inr (JStr ''''), []))"

text \<open>
  How the function ends: \<^verbatim>\<open>return jsonify({'response': bot_response})\<close> after the
  \<^verbatim>\<open>try\<close> body, or the \<^verbatim>\<open>except Exception\<close> clause with its 500 response.
\<close>

definition chat_respond ::
  "(pyexn + json) \<times> http_request list \<Rightarrow> outcome \<times> http_request list" where
  "chat_respond r =
     (case r of
        (Inr bot_response, calls) \<Rightarrow>
          (Responded 200 (JObj [(''response'', bot_response)]), calls)
      | (Inl e, calls) \<Rightarrow>
          (Responded 500
             (JObj [(''error'', JStr (''An internal server error occurred: '' @ exn_str e))]),
           calls))"

text \<open>
  \<^verbatim>\<open>chat_api\<close>. Its argument is what \<^verbatim>\<open>request.get_json()\<close> does on the incoming request:
  it raises, or gives the parsed body. The four field reads come before the \<^verbatim>\<open>try\<close>, as
  in the source, so an exception of theirs leaves the function.
\<close>

definition chat_api :: "env \<Rightarrow> pyexn + json \<Rightarrow> outcome \<times> http_request list" where
  "chat_api env get_json =
     (case get_json of
        Inl e \<Rightarrow> (Unhandled e, [])
      | Inr data \<Rightarrow>
          (case py_get data ''message'' of
             Inl e \<Rightarrow> (Unhandled e, [])
           | Inr user_message \<Rightarrow>
          (case py_get data ''fileData'' of
             Inl e \<Rightarrow> (Unhandled e, [])
           | Inr file_data_b64 \<Rightarrow>
          (case py_get data ''fileType'' of
             Inl e \<Rightarrow> (Unhandled e, [])
           | Inr file_type \<Rightarrow>
          (case py_get data ''fileName'' of
             Inl e \<Rightarrow> (Unhandled e, [])
           | Inr file_name \<Rightarrow>
               chat_respond (chat_try env user_message file_data_b64 file_type file_name))))))"

section \<open>Reading a request payload\<close>

text \<open>
  The parts of the first content of a payload, \<^verbatim>\<open>payload['contents'][0]['parts']\<close>, and the
  two kinds of part, to state what a payload holds.
\<close>

definition payload_parts :: "json \<Rightarrow> json list" where
  "payload_parts p =
     (case py_get p ''contents'' of
        Inr (JArr (c # cs)) \<Rightarrow>
          (case py_get c ''parts'' of Inr (JArr parts) \<Rightarrow> parts | _ \<Rightarrow> [])
      | _ \<Rightarrow> [])"

definition is_inline_part :: "json \<Rightarrow> bool" where
  "is_inline_part part = (case part of JObj [(k, v)] \<Rightarrow> k = ''inlineData'' | _ \<Rightarrow> False)"

definition is_text_part :: "json \<Rightarrow> bool" where
  "is_text_part part = (case part of JObj [(k, v)] \<Rightarrow> k = ''text'' | _ \<Rightarrow> False)"

section \<open>A concrete deployment\<close>

text \<open>
  Collaborators for the worked instances. The AI service answers every request with one
  candidate; the PDF parser knows a one-page report and a one-page scan without text and
  raises on anything else; the DOCX parser raises; the base64 codec decodes the five
  strings the instances use, to the bytes they encode, and rejects the rest.
\<close>

definition sample_answer :: json where
  "sample_answer =
     JObj [(''candidates'',
       JArr [JObj [(''content'',
         JObj [(''parts'', JArr [JObj [(''text'', JStr ''Rest and drink water.'')]])])]])]"

definition sample_b64decode :: "string \<Rightarrow> pyexn + bytes" where
  "sample_b64decode s =
     (if s = ''JVBERi10ZXh0'' then Inr ''%PDF-text''
      else if s = ''JVBERi1zY2Fu'' then Inr ''%PDF-scan''
      else if s = ''bm90IGEgZG9jdW1lbnQ='' then Inr ''not a document''
      else if s = ''Qf9C'' then Inr [CHR ''A'', CHR 0xFF, CHR ''B'']
      else if s = ''iVBORw=='' then Inr [CHR 0x89, CHR ''P'', CHR ''N'', CHR ''G'']
      else Inl (PyExn BinasciiError ''Incorrect padding''))"

definition sample_pdf_reader :: "bytes \<Rightarrow> pyexn + (pyexn + string option) list" where
  "sample_pdf_reader b =
     (if b = ''%PDF-text'' then Inr [Inr (Some ''BP 120/80'')]
      else if b = ''%PDF-scan'' then Inr [Inr (Some [])]
      else Inl (PyExn OtherException ''Stream has ended unexpectedly''))"

definition sample_env :: env where
  "sample_env =
     \<lparr>gemini_api_key = Some ''KEY'',
      requests_post = (\<lambda>r. Response 200 (Inr sample_answer)),
      pdf_reader = sample_pdf_reader,
      docx_document = (\<lambda>b. Inl (PyExn OtherException ''File is not a zip file'')),
      b64decode = sample_b64decode,
      py_repr = (\<lambda>v. ''...'')\<rparr>"

definition gemini_request :: "env \<Rightarrow> json \<Rightarrow> http_request" where
  "gemini_request env p =
     \<lparr>url = gemini_url env ''gemini-2.5-flash'', headers = json_headers, payload = p\<rparr>"

section \<open>Facts about the handler shared by the claims\<close>

lemma chat_api_fields:
  assumes "py_get data ''message'' = Inr user_message"
    and "py_get data ''fileData'' = Inr file_data"
    and "py_get data ''fileType'' = Inr file_type"
    and "py_get data ''fileName'' = Inr file_name"
  shows "chat_api env (Inr data) =
    chat_respond (chat_try env user_message file_data file_type file_name)"
  using assms by (simp add: chat_api_def)

lemma py_get_object: "\<exists>v. py_get (JObj kvs) k = Inr v"
  by (simp split: option.split)

lemma call_gemini_api_calls:
  "snd (call_gemini_api env prompt model) =
     [\<lparr>url = gemini_url env model, headers = json_headers, payload = text_payload prompt\<rparr>]"
  by (simp add: call_gemini_api_def Let_def)

lemma analyze_text_content_calls:
  "snd (analyze_text_content env text_content file_name) =
     [gemini_request env
        (text_payload (text_content_prompt text_content (py_str (py_repr env) file_name)))]"
  by (simp add: analyze_text_content_def call_gemini_api_calls gemini_request_def)

lemma analyze_image_calls:
  "snd (analyze_image_with_gemini env base64_image mime_type) =
     [gemini_request env (image_payload base64_image mime_type)]"
  by (simp add: analyze_image_with_gemini_def gemini_request_def Let_def)

text \<open>The sample service's answer has the expected shape, and its text is extracted.\<close>

lemma sample_answer_text:
  "has_parts sample_answer = Inr True"
  "first_text sample_answer = Inr (JStr ''Rest and drink water.'')"
  by (simp_all add: has_parts_def first_text_def sample_answer_def ebind_def)

lemma sample_gemini_try:
  "gemini_try sample_env req unexpected = Inr (JStr ''Rest and drink water.'')"
  by (simp add: gemini_try_def sample_env_def raise_for_status_def ebind_def sample_answer_text)

lemma sample_call_gemini_api:
  "fst (call_gemini_api sample_env prompt model) = JStr ''Rest and drink water.''"
  by (simp add: call_gemini_api_def Let_def sample_gemini_try gemini_except_def)

section \<open>No input, and file fields that do not make a pair\<close>

text \<open>
  \<^bold>\<open>C9.\<close> A request whose message is absent or empty, and whose \<^verbatim>\<open>fileData\<close> and
  \<^verbatim>\<open>fileType\<close> are not both present, is answered with status 200 and the body
  \<^verbatim>\<open>{"response": ""}\<close>; nothing is sent to the AI service. The theorem takes the weaker
  condition the code tests: the message is falsy, and the two file fields are not both
  truthy (a missing field reads as \<^verbatim>\<open>None\<close>).
\<close>

theorem empty_request_empty_response:
  assumes "py_get data ''message'' = Inr user_message"
    and "py_get data ''fileData'' = Inr file_data"
    and "py_get data ''fileType'' = Inr file_type"
    and "py_get data ''fileName'' = Inr file_name"
    and "\<not> truthy user_message"
    and "\<not> (truthy file_data \<and> truthy file_type)"
  shows "chat_api env (Inr data) = (Responded 200 (JObj [(''response'', JStr '''')]), [])"
proof -
  have "chat_try env user_message file_data file_type file_name = (Inr (JStr ''''), [])"
    using assms(5,6) by (auto simp: chat_try_def)
  then show ?thesis
    by (simp add: chat_api_fields [OF assms(1-4)] chat_respond_def)
qed

text \<open>
  Two instances: the empty object, and an empty message with a file type and no file
  data.
\<close>

theorem empty_request_empty_response_witness:
  "chat_api sample_env (Inr (JObj [])) = (Responded 200 (JObj [(''response'', JStr '''')]), [])
   \<and> chat_api sample_env
        (Inr (JObj [(''message'', JStr ''''), (''fileType'', JStr ''application/pdf'')]))
       = (Responded 200 (JObj [(''response'', JStr '''')]), [])"
  using empty_request_empty_response [of "JObj []" JNull JNull JNull JNull sample_env]
    empty_request_empty_response
      [of "JObj [(''message'', JStr ''''), (''fileType'', JStr ''application/pdf'')]"
        "JStr ''''" JNull "JStr ''application/pdf''" JNull sample_env]
  by simp

text \<open>
  \<^bold>\<open>C10.\<close> When \<^verbatim>\<open>fileData\<close> and \<^verbatim>\<open>fileType\<close> are not both truthy (one of them is missing,
  or is the empty string), the file fields are ignored. The request is handled as the
  request carrying the message alone is: the symptom-description branch when the message
  is truthy, the empty response otherwise. The outcome does not depend on the base64 codec
  or on the document parsers, so none of them decides anything, and every request sent to
  the AI service carries the symptom prompt as a text payload, never an image.
\<close>

theorem unpaired_file_fields_ignored:
  assumes "py_get data ''message'' = Inr user_message"
    and "py_get data ''fileData'' = Inr file_data"
    and "py_get data ''fileType'' = Inr file_type"
    and "py_get data ''fileName'' = Inr file_name"
    and "\<not> (truthy file_data \<and> truthy file_type)"
  shows "chat_api env (Inr data) = chat_api env (Inr (JObj [(''message'', user_message)]))
    \<and> chat_api env (Inr data) =
        (if truthy user_message then chat_respond (handle_message env user_message)
         else (Responded 200 (JObj [(''response'', JStr '''')]), []))
    \<and> chat_api env (Inr data) =
        chat_api (env\<lparr>b64decode := codec, pdf_reader := pdf, docx_document := docx\<rparr>) (Inr data)
    \<and> (\<forall>r \<in> set (snd (chat_api env (Inr data))).
          r = gemini_request env (text_payload (symptom_prompt (py_str (py_repr env) user_message))))"
proof -
  let ?env' = "env\<lparr>b64decode := codec, pdf_reader := pdf, docx_document := docx\<rparr>"
  have tried: "chat_try e user_message file_data file_type file_name =
      (if truthy user_message then handle_message e user_message else (Inr (JStr ''''), []))" for e
    using assms(5) by (auto simp: chat_try_def)
  have api: "chat_api e (Inr data) =
      (if truthy user_message then chat_respond (handle_message e user_message)
       else (Responded 200 (JObj [(''response'', JStr '''')]), []))" for e
    by (simp add: chat_api_fields [OF assms(1-4)] tried chat_respond_def)
  have bare: "chat_api env (Inr (JObj [(''message'', user_message)])) =
      (if truthy user_message then chat_respond (handle_message env user_message)
       else (Responded 200 (JObj [(''response'', JStr '''')]), []))"
    by (simp add: chat_api_def chat_try_def chat_respond_def)
  have msg: "handle_message ?env' user_message = handle_message env user_message"
    by (simp add: handle_message_def call_gemini_api_def gemini_try_def gemini_url_def Let_def
        split: option.split)
  have calls: "\<forall>r \<in> set (snd (chat_respond (handle_message env user_message))).
      r = gemini_request env (text_payload (symptom_prompt (py_str (py_repr env) user_message)))"
    by (simp add: handle_message_def chat_respond_def returned_def call_gemini_api_calls
        gemini_request_def split: option.split prod.split sum.split)
  show ?thesis
    using calls by (simp add: api bare msg)
qed

text \<open>
  An instance: a message and file data without a file type. The answer is the one to the
  message alone, and the one request sent carries the symptom prompt.
\<close>

theorem unpaired_file_fields_ignored_witness:
  "chat_api sample_env
      (Inr (JObj [(''message'', JStr ''headache''), (''fileData'', JStr ''JVBERi10ZXh0'')]))
     = chat_api sample_env (Inr (JObj [(''message'', JStr ''headache'')]))
   \<and> chat_api sample_env
      (Inr (JObj [(''message'', JStr ''headache''), (''fileData'', JStr ''JVBERi10ZXh0'')]))
     = (Responded 200 (JObj [(''response'', JStr ''Rest and drink water.'')]),
        [gemini_request sample_env (text_payload (symptom_prompt ''headache''))])"
proof -
  let ?data = "JObj [(''message'', JStr ''headache''), (''fileData'', JStr ''JVBERi10ZXh0'')]"
  have fields:
    "py_get ?data ''message'' = Inr (JStr ''headache'')"
    "py_get ?data ''fileData'' = Inr (JStr ''JVBERi10ZXh0'')"
    "py_get ?data ''fileType'' = Inr JNull"
    "py_get ?data ''fileName'' = Inr JNull"
    "\<not> (truthy (JStr ''JVBERi10ZXh0'') \<and> truthy JNull)"
    by simp_all
  note ignored = unpaired_file_fields_ignored [OF fields, of sample_env]
  have same: "chat_api sample_env (Inr ?data) =
      chat_api sample_env (Inr (JObj [(''message'', JStr ''headache'')]))"
    using ignored by blast
  have "chat_api sample_env (Inr ?data) =
      chat_respond (handle_message sample_env (JStr ''headache''))"
    using ignored [THEN conjunct2, THEN conjunct1] by simp
  also have "\<dots> =
      (Responded 200 (JObj [(''response'', JStr ''Rest and drink water.'')]),
       [gemini_request sample_env (text_payload (symptom_prompt ''headache''))])"
    by (simp add: handle_message_def chat_respond_def returned_def sample_call_gemini_api
        call_gemini_api_calls gemini_request_def)
  finally show ?thesis
    using same by simp
qed

section \<open>The reach of the catch-all\<close>

text \<open>
  Everything from the first line of the \<^verbatim>\<open>try\<close> on is covered: whatever the fields of a
  JSON object are, the handler responds, with status 200 or with status 500 and the
  exception's string.
\<close>

lemma chat_respond_status:
  "\<exists>body calls. chat_respond r = (Responded 200 body, calls)
     \<or> (\<exists>e. fst r = Inl e \<and> chat_respond r =
          (Responded 500
             (JObj [(''error'', JStr (''An internal server error occurred: '' @ exn_str e))]),
           calls))"
  by (cases r; cases "fst r") (auto simp: chat_respond_def)

lemma object_body_responds:
  "\<exists>status body. fst (chat_api env (Inr (JObj kvs))) = Responded status body
     \<and> (status = 200 \<or> status = 500)"
proof -
  obtain user_message where m: "py_get (JObj kvs) ''message'' = Inr user_message"
    using py_get_object by blast
  obtain file_data where d: "py_get (JObj kvs) ''fileData'' = Inr file_data"
    using py_get_object by blast
  obtain file_type where t: "py_get (JObj kvs) ''fileType'' = Inr file_type"
    using py_get_object by blast
  obtain file_name where n: "py_get (JObj kvs) ''fileName'' = Inr file_name"
    using py_get_object by blast
  from m d t n obtain r where "chat_api env (Inr (JObj kvs)) = chat_respond r"
    using chat_api_fields by blast
  then show ?thesis
    using chat_respond_status [of r] by auto
qed

text \<open>
  \<^bold>\<open>C2.\<close> The claim is that the whole handling of a request, JSON body parsing and field
  extraction included, is inside the catch-all, so that every failure becomes a 500 JSON
  error. In the source \<^verbatim>\<open>request.get_json()\<close> and the four \<^verbatim>\<open>data.get\<close> calls stand
  before the \<^verbatim>\<open>try\<close>. On a body that is valid JSON and not an object (\<^verbatim>\<open>[]\<close>, \<^verbatim>\<open>null\<close>)
  the first \<^verbatim>\<open>data.get\<close> raises an AttributeError, and on a body that \<^verbatim>\<open>get_json\<close> rejects
  it is \<^verbatim>\<open>get_json\<close> that raises; in each case the exception leaves \<^verbatim>\<open>chat_api\<close> and no
  500 JSON error is built.
\<close>

theorem field_reads_outside_try:
  "chat_api env (Inr (JArr [])) = (Unhandled (no_attribute (JArr []) ''get''), [])
   \<and> chat_api env (Inr JNull) = (Unhandled (no_attribute JNull ''get''), [])
   \<and> chat_api env (Inl e) = (Unhandled e, [])"
  by (simp add: chat_api_def)

section \<open>The prompt for document text\<close>

text \<open>A string occurs in a concatenation when it occurs in one of its two sides.\<close>

lemma sublist_in_left: "sublist xs ys \<Longrightarrow> sublist xs (ys @ zs)"
  by (auto simp: sublist_def) (metis append.assoc)

lemma sublist_in_right: "sublist xs zs \<Longrightarrow> sublist xs (ys @ zs)"
  by (auto simp: sublist_def) (metis append.assoc)

lemma sublist_quoted: "sublist s (quoted s)"
  by (metis append_Cons append_Nil quoted_def sublist_appendI)

text \<open>
  \<^bold>\<open>C8.\<close> For every extracted text and file name, the text-content prompt contains the
  whole text and the file name, each verbatim, and the four labelled sections Summary, Key
  Metrics, Potential Concerns and Recommendations. \<^verbatim>\<open>analyze_text_content\<close> sends that
  prompt, as the one text part of the one request it makes.
\<close>

theorem text_content_prompt_contains:
  "sublist text_content (text_content_prompt text_content file_name)
   \<and> sublist file_name (text_content_prompt text_content file_name)
   \<and> sublist ''1. **Summary**'' (text_content_prompt text_content file_name)
   \<and> sublist ''2. **Key Metrics**'' (text_content_prompt text_content file_name)
   \<and> sublist ''3. **Potential Concerns**'' (text_content_prompt text_content file_name)
   \<and> sublist ''4. **Recommendations**'' (text_content_prompt text_content file_name)
   \<and> snd (analyze_text_content env text_content (JStr file_name)) =
       [gemini_request env (text_payload (text_content_prompt text_content file_name))]
   \<and> payload_parts (text_payload (text_content_prompt text_content file_name)) =
       [JObj [(''text'', JStr (text_content_prompt text_content file_name))]]"
proof -
  let ?p = "text_content_prompt text_content file_name"
  have content: "sublist text_content ?p"
    unfolding text_content_prompt_def
    by (intro sublist_in_right) simp
  have name: "sublist file_name ?p"
    unfolding text_content_prompt_def
    by (intro sublist_in_right sublist_in_left sublist_quoted)
  have summary: "sublist ''1. **Summary**'' ?p"
    unfolding text_content_prompt_def
    apply (rule sublist_in_right, rule sublist_in_right, rule sublist_in_right)
    apply (rule sublist_in_left)
    by (rule prefix_imp_sublist) simp
  have metrics: "sublist ''2. **Key Metrics**'' ?p"
    unfolding text_content_prompt_def
    apply (rule sublist_in_right, rule sublist_in_right, rule sublist_in_right)
    apply (rule sublist_in_right, rule sublist_in_left)
    by (rule prefix_imp_sublist) simp
  have concerns: "sublist ''3. **Potential Concerns**'' ?p"
    unfolding text_content_prompt_def
    apply (rule sublist_in_right, rule sublist_in_right, rule sublist_in_right)
    apply (rule sublist_in_right, rule sublist_in_right, rule sublist_in_left)
    by (rule prefix_imp_sublist) simp
  have recommendations: "sublist ''4. **Recommendations**'' ?p"
    unfolding text_content_prompt_def
    apply (rule sublist_in_right, rule sublist_in_right, rule sublist_in_right)
    apply (rule sublist_in_right, rule sublist_in_right, rule sublist_in_right)
    apply (rule sublist_in_left)
    by (rule prefix_imp_sublist) simp
  have sent: "snd (analyze_text_content env text_content (JStr file_name)) =
      [gemini_request env (text_payload ?p)]"
    by (simp add: analyze_text_content_calls)
  have parts: "payload_parts (text_payload ?p) = [JObj [(''text'', JStr ?p)]]"
    by (simp add: payload_parts_def text_payload_def)
  show ?thesis
    using content name summary metrics concerns recommendations sent parts by blast
qed

section \<open>Requests that carry a file\<close>

text \<open>
  With both file fields truthy the handler takes the file branch, whatever the message
  is.
\<close>

lemma file_branch:
  assumes "py_get data ''message'' = Inr user_message"
    and "py_get data ''fileData'' = Inr file_data"
    and "py_get data ''fileType'' = Inr file_type"
    and "py_get data ''fileName'' = Inr file_name"
    and "truthy file_data" and "truthy file_type"
  shows "chat_api env (Inr data) = chat_respond (handle_file env file_data file_type file_name)"
  using assms(5,6) by (simp add: chat_api_fields [OF assms(1-4)] chat_try_def)

text \<open>
  \<^bold>\<open>C7.\<close> A request whose \<^verbatim>\<open>fileType\<close> starts with \<^verbatim>\<open>image/\<close>, and whose \<^verbatim>\<open>fileData\<close> is a
  non-empty string that the base64 codec accepts, is answered by the image analysis. The
  one request sent holds the string \<^verbatim>\<open>fileData\<close> of the request itself, not the decoded
  bytes or a new encoding of them, and the declared type, in its single inline part; the
  other parts are the fixed instruction, a heading line and the four numbered items
  Description, Findings, Concerns and Recommendations.
\<close>

theorem image_passes_original_base64:
  assumes "py_get data ''message'' = Inr user_message"
    and "py_get data ''fileData'' = Inr (JStr base64_image)"
    and "py_get data ''fileType'' = Inr (JStr mime_type)"
    and "py_get data ''fileName'' = Inr file_name"
    and "base64_image \<noteq> []"
    and "prefix ''image/'' mime_type"
    and "b64decode env base64_image = Inr file_content_bytes"
  shows "chat_api env (Inr data) =
      (Responded 200 (JObj [(''response'',
         fst (analyze_image_with_gemini env (JStr base64_image) (JStr mime_type)))]),
       [gemini_request env (image_payload (JStr base64_image) (JStr mime_type))])
    \<and> filter is_inline_part (payload_parts (image_payload (JStr base64_image) (JStr mime_type))) =
       [JObj [(''inlineData'',
          JObj [(''mimeType'', JStr mime_type), (''data'', JStr base64_image)])]]
    \<and> filter is_text_part (payload_parts (image_payload (JStr base64_image) (JStr mime_type))) =
       [JObj [(''text'', JStr ''Analyze this medical image and provide:'')],
        JObj [(''text'', JStr ''1. **Description**: What the image shows'')],
        JObj [(''text'', JStr ''2. **Findings**: Notable observations'')],
        JObj [(''text'', JStr ''3. **Concerns**: Any potential issues'')],
        JObj [(''text'', JStr ''4. **Recommendations**: Suggested next steps'')]]
    \<and> length (payload_parts (image_payload (JStr base64_image) (JStr mime_type))) = 6"
proof -
  from assms(6) have "mime_type \<noteq> []" by auto
  with assms(5) have truthy: "truthy (JStr base64_image)" "truthy (JStr mime_type)" by simp_all
  have "handle_file env (JStr base64_image) (JStr mime_type) file_name =
      returned (analyze_image_with_gemini env (JStr base64_image) (JStr mime_type))"
    using assms(6,7) by (simp add: handle_file_def py_b64decode_def)
  then have api: "chat_api env (Inr data) =
      (Responded 200 (JObj [(''response'',
         fst (analyze_image_with_gemini env (JStr base64_image) (JStr mime_type)))]),
       [gemini_request env (image_payload (JStr base64_image) (JStr mime_type))])"
    by (simp add: file_branch [OF assms(1-4) truthy] chat_respond_def returned_def
        analyze_image_calls)
  have parts: "payload_parts (image_payload (JStr base64_image) (JStr mime_type)) =
      [JObj [(''text'', JStr ''Analyze this medical image and provide:'')],
       JObj [(''text'', JStr ''1. **Description**: What the image shows'')],
       JObj [(''text'', JStr ''2. **Findings**: Notable observations'')],
       JObj [(''text'', JStr ''3. **Concerns**: Any potential issues'')],
       JObj [(''text'', JStr ''4. **Recommendations**: Suggested next steps'')],
       JObj [(''inlineData'',
          JObj [(''mimeType'', JStr mime_type), (''data'', JStr base64_image)])]]"
    by (simp add: payload_parts_def image_payload_def)
  show ?thesis
    by (simp add: api parts is_inline_part_def is_text_part_def)
qed

text \<open>An instance: a PNG upload to the sample deployment.\<close>

theorem image_passes_original_base64_witness:
  "chat_api sample_env
     (Inr (JObj [(''fileData'', JStr ''iVBORw==''), (''fileType'', JStr ''image/png''),
                 (''fileName'', JStr ''xray.png'')]))
   = (Responded 200 (JObj [(''response'', JStr ''Rest and drink water.'')]),
      [gemini_request sample_env (image_payload (JStr ''iVBORw=='') (JStr ''image/png''))])
   \<and> filter is_inline_part (payload_parts (image_payload (JStr ''iVBORw=='') (JStr ''image/png''))) =
       [JObj [(''inlineData'',
          JObj [(''mimeType'', JStr ''image/png''), (''data'', JStr ''iVBORw=='')])]]"
proof -
  let ?data = "JObj [(''fileData'', JStr ''iVBORw==''), (''fileType'', JStr ''image/png''),
                 (''fileName'', JStr ''xray.png'')]"
  have fields:
    "py_get ?data ''message'' = Inr JNull"
    "py_get ?data ''fileData'' = Inr (JStr ''iVBORw=='')"
    "py_get ?data ''fileType'' = Inr (JStr ''image/png'')"
    "py_get ?data ''fileName'' = Inr (JStr ''xray.png'')"
    "''iVBORw=='' \<noteq> []"
    "prefix ''image/'' ''image/png''"
    "b64decode sample_env ''iVBORw=='' = Inr [CHR 0x89, CHR ''P'', CHR ''N'', CHR ''G'']"
    by (simp_all add: sample_env_def sample_b64decode_def)
  have answer: "fst (analyze_image_with_gemini sample_env b m) = JStr ''Rest and drink water.''"
    for b m
    by (simp add: analyze_image_with_gemini_def Let_def sample_gemini_try gemini_except_def)
  show ?thesis
    using image_passes_original_base64 [OF fields] by (simp add: answer)
qed

text \<open>
  The round trip of the one-page report: its text is \<^verbatim>\<open>BP 120/80\<close>, and the prompt sent
  for it contains that text and the name of the file.
\<close>

theorem text_content_prompt_contains_witness:
  "chat_api sample_env
     (Inr (JObj [(''fileData'', JStr ''JVBERi10ZXh0''), (''fileType'', JStr ''application/pdf''),
                 (''fileName'', JStr ''report.pdf'')]))
     = (Responded 200 (JObj [(''response'', JStr ''Rest and drink water.'')]),
        [gemini_request sample_env
           (text_payload (text_content_prompt ''BP 120/80'' ''report.pdf''))])
   \<and> sublist ''BP 120/80'' (text_content_prompt ''BP 120/80'' ''report.pdf'')
   \<and> sublist ''report.pdf'' (text_content_prompt ''BP 120/80'' ''report.pdf'')"
proof -
  let ?data = "JObj [(''fileData'', JStr ''JVBERi10ZXh0''), (''fileType'', JStr ''application/pdf''),
                 (''fileName'', JStr ''report.pdf'')]"
  have fields:
    "py_get ?data ''message'' = Inr JNull"
    "py_get ?data ''fileData'' = Inr (JStr ''JVBERi10ZXh0'')"
    "py_get ?data ''fileType'' = Inr (JStr ''application/pdf'')"
    "py_get ?data ''fileName'' = Inr (JStr ''report.pdf'')"
    "truthy (JStr ''JVBERi10ZXh0'')"
    "truthy (JStr ''application/pdf'')"
    by simp_all
  have decoded: "py_b64decode sample_env (JStr ''JVBERi10ZXh0'') = Inr ''%PDF-text''"
    by (simp add: py_b64decode_def sample_env_def sample_b64decode_def)
  have extracted: "read_pdf_text sample_env ''%PDF-text'' = Some ''BP 120/80''"
    by (simp add: read_pdf_text_def sample_env_def sample_pdf_reader_def ebind_def)
  have answer: "fst (analyze_text_content sample_env t n) = JStr ''Rest and drink water.''" for t n
    by (simp add: analyze_text_content_def sample_call_gemini_api)
  have sent: "snd (analyze_text_content sample_env ''BP 120/80'' (JStr ''report.pdf'')) =
      [gemini_request sample_env (text_payload (text_content_prompt ''BP 120/80'' ''report.pdf''))]"
    using text_content_prompt_contains [of "''BP 120/80''" "''report.pdf''" sample_env] by blast
  have "handle_file sample_env (JStr ''JVBERi10ZXh0'') (JStr ''application/pdf'')
      (JStr ''report.pdf'') =
      returned (analyze_text_content sample_env ''BP 120/80'' (JStr ''report.pdf''))"
    by (simp add: handle_file_def decoded extracted analyze_extracted_def)
  then have "chat_api sample_env (Inr ?data) =
      (Responded 200 (JObj [(''response'', JStr ''Rest and drink water.'')]),
        [gemini_request sample_env
           (text_payload (text_content_prompt ''BP 120/80'' ''report.pdf''))])"
    by (simp add: file_branch [OF fields] chat_respond_def returned_def answer sent)
  then show ?thesis
    using text_content_prompt_contains [of "''BP 120/80''" "''report.pdf''" sample_env] by blast
qed

section \<open>The extractors\<close>

text \<open>
  \<^verbatim>\<open>read_pdf_text\<close> gives \<^verbatim>\<open>None\<close> exactly when the parser raises, on the document or on
  one of its pages; pages without text add nothing to the text and are no failure.
  \<^verbatim>\<open>read_docx_text\<close> gives \<^verbatim>\<open>None\<close> exactly when the parser raises.
\<close>

lemma pdf_pages_text_raises:
  "(\<exists>e. pdf_pages_text acc pages = Inl e) \<longleftrightarrow> (\<exists>e. Inl e \<in> set pages)"
  by (induction acc pages rule: pdf_pages_text.induct) auto

lemma read_pdf_text_None:
  "read_pdf_text env file_content_bytes = None \<longleftrightarrow>
     (\<exists>e. pdf_reader env file_content_bytes = Inl e)
     \<or> (\<exists>pages e. pdf_reader env file_content_bytes = Inr pages \<and> Inl e \<in> set pages)"
proof (cases "pdf_reader env file_content_bytes")
  case (Inl e)
  then show ?thesis by (simp add: read_pdf_text_def ebind_def)
next
  case (Inr pages)
  then show ?thesis
    using pdf_pages_text_raises [of "''''" pages]
    by (auto simp: read_pdf_text_def ebind_def split: sum.splits)
qed

lemma pdf_pages_text_blank:
  "\<forall>p \<in> set pages. p = Inr None \<or> p = Inr (Some []) \<Longrightarrow>
     pdf_pages_text acc pages = Inr acc"
  by (induction acc pages rule: pdf_pages_text.induct) auto

lemma read_docx_text_None:
  "read_docx_text env file_content_bytes = None \<longleftrightarrow>
     (\<exists>e. docx_document env file_content_bytes = Inl e)"
  by (cases "docx_document env file_content_bytes") (simp_all add: read_docx_text_def)

text \<open>
  \<^bold>\<open>C4.\<close> A request with truthy \<^verbatim>\<open>fileData\<close> whose \<^verbatim>\<open>fileType\<close> is a string that has not the
  prefix \<^verbatim>\<open>image/\<close> and is none of the PDF, DOCX and plain-text types: nothing is sent to
  the AI service, and the 200 response carries the fixed message, which contains the
  declared type. The response is that 200 response whenever the base64 decoding of line
  162, which comes before the dispatch, succeeds; a failed decoding is the 500 response of
  the catch-all, so no other 200 response exists.
\<close>

theorem unsupported_type_no_ai_call:
  assumes "py_get data ''message'' = Inr user_message"
    and "py_get data ''fileData'' = Inr file_data"
    and "py_get data ''fileType'' = Inr (JStr file_type)"
    and "py_get data ''fileName'' = Inr file_name"
    and "truthy file_data"
    and "file_type \<noteq> []"
    and "\<not> prefix ''image/'' file_type"
    and "file_type \<noteq> ''application/pdf''"
    and "file_type \<noteq> docx_mime"
    and "file_type \<noteq> ''text/plain''"
  shows "snd (chat_api env (Inr data)) = []
    \<and> (\<forall>file_content_bytes. py_b64decode env file_data = Inr file_content_bytes \<longrightarrow>
          fst (chat_api env (Inr data)) =
            Responded 200 (JObj [(''response'', JStr (unsupported_file_type file_type))]))
    \<and> (\<forall>body. fst (chat_api env (Inr data)) = Responded 200 body \<longrightarrow>
          body = JObj [(''response'', JStr (unsupported_file_type file_type))])
    \<and> sublist file_type (unsupported_file_type file_type)"
proof -
  have truthy: "truthy file_data" "truthy (JStr file_type)"
    using assms(5,6) by simp_all
  have handled: "handle_file env file_data (JStr file_type) file_name =
      (case py_b64decode env file_data of
         Inl e \<Rightarrow> (Inl e, [])
       | Inr file_content_bytes \<Rightarrow> (Inr (JStr (unsupported_file_type file_type)), []))"
    using assms(7-10) by (simp add: handle_file_def split: sum.split)
  have api: "chat_api env (Inr data) =
      (case py_b64decode env file_data of
         Inl e \<Rightarrow>
           (Responded 500
              (JObj [(''error'', JStr (''An internal server error occurred: '' @ exn_str e))]),
            [])
       | Inr file_content_bytes \<Rightarrow>
           (Responded 200 (JObj [(''response'', JStr (unsupported_file_type file_type))]), []))"
    by (simp add: file_branch [OF assms(1-4) truthy] handled chat_respond_def split: sum.split)
  have named: "sublist file_type (unsupported_file_type file_type)"
    unfolding unsupported_file_type_def by (rule sublist_in_right) simp
  show ?thesis
    using named by (auto simp: api split: sum.split)
qed

text \<open>An instance: a video upload.\<close>

theorem unsupported_type_no_ai_call_witness:
  "chat_api sample_env
     (Inr (JObj [(''fileData'', JStr ''bm90IGEgZG9jdW1lbnQ=''), (''fileType'', JStr ''video/mp4'')]))
   = (Responded 200 (JObj [(''response'', JStr (unsupported_file_type ''video/mp4''))]), [])
   \<and> sublist ''video/mp4'' (unsupported_file_type ''video/mp4'')"
proof -
  let ?data = "JObj [(''fileData'', JStr ''bm90IGEgZG9jdW1lbnQ=''), (''fileType'', JStr ''video/mp4'')]"
  have fields:
    "py_get ?data ''message'' = Inr JNull"
    "py_get ?data ''fileData'' = Inr (JStr ''bm90IGEgZG9jdW1lbnQ='')"
    "py_get ?data ''fileType'' = Inr (JStr ''video/mp4'')"
    "py_get ?data ''fileName'' = Inr JNull"
    "truthy (JStr ''bm90IGEgZG9jdW1lbnQ='')"
    "''video/mp4'' \<noteq> []"
    "\<not> prefix ''image/'' ''video/mp4''"
    "''video/mp4'' \<noteq> ''application/pdf''"
    "''video/mp4'' \<noteq> docx_mime"
    "''video/mp4'' \<noteq> ''text/plain''"
    by (simp_all add: docx_mime_def)
  have decoded: "py_b64decode sample_env (JStr ''bm90IGEgZG9jdW1lbnQ='') = Inr ''not a document''"
    by (simp add: py_b64decode_def sample_env_def sample_b64decode_def)
  note unsupported = unsupported_type_no_ai_call [OF fields, of sample_env]
  have "snd (chat_api sample_env (Inr ?data)) = []"
    using unsupported by blast
  moreover have "fst (chat_api sample_env (Inr ?data)) =
      Responded 200 (JObj [(''response'', JStr (unsupported_file_type ''video/mp4''))])"
    using unsupported decoded by blast
  moreover have "sublist ''video/mp4'' (unsupported_file_type ''video/mp4'')"
    using unsupported by blast
  ultimately show ?thesis
    by (simp add: prod_eq_iff)
qed

text \<open>
  \<^bold>\<open>C5.\<close> A PDF or DOCX upload on which the extractor gives \<^verbatim>\<open>None\<close>: the response has
  status 200, its string contains the file name as the f-string renders it (the string
  itself when \<^verbatim>\<open>fileName\<close> is a string), no exception reaches the caller and nothing is
  sent to the AI service.
\<close>

theorem extractor_failure_names_file:
  assumes "py_get data ''message'' = Inr user_message"
    and "py_get data ''fileData'' = Inr file_data"
    and "py_get data ''fileType'' = Inr file_type"
    and "py_get data ''fileName'' = Inr file_name"
    and "truthy file_data"
    and "py_b64decode env file_data = Inr file_content_bytes"
    and "file_type = JStr ''application/pdf'' \<and> read_pdf_text env file_content_bytes = None
       \<or> file_type = JStr docx_mime \<and> read_docx_text env file_content_bytes = None"
  shows "\<exists>message. chat_api env (Inr data) =
        (Responded 200 (JObj [(''response'', JStr message)]), [])
      \<and> sublist (py_str (py_repr env) file_name) message
      \<and> (\<forall>name. file_name = JStr name \<longrightarrow> sublist name message)"
proof -
  let ?name = "py_str (py_repr env) file_name"
  have pdf_named: "sublist ?name (pdf_not_extracted ?name)"
    unfolding pdf_not_extracted_def by (intro sublist_in_right sublist_in_left sublist_quoted)
  have docx_named: "sublist ?name (docx_not_extracted ?name)"
    unfolding docx_not_extracted_def by (intro sublist_in_right sublist_in_left sublist_quoted)
  have str: "file_name = JStr name \<Longrightarrow> ?name = name" for name by simp
  from assms(7) show ?thesis
  proof
    assume pdf: "file_type = JStr ''application/pdf'' \<and> read_pdf_text env file_content_bytes = None"
    then have truthy: "truthy file_data" "truthy file_type"
      using assms(5) by simp_all
    have "chat_api env (Inr data) =
        (Responded 200 (JObj [(''response'', JStr (pdf_not_extracted ?name))]), [])"
      using pdf assms(6)
      by (simp add: file_branch [OF assms(1-4) truthy] handle_file_def analyze_extracted_def
          chat_respond_def)
    then show ?thesis
      using pdf_named str by metis
  next
    assume docx: "file_type = JStr docx_mime \<and> read_docx_text env file_content_bytes = None"
    then have truthy: "truthy file_data" "truthy file_type"
      using assms(5) by (simp_all add: docx_mime_def)
    have "chat_api env (Inr data) =
        (Responded 200 (JObj [(''response'', JStr (docx_not_extracted ?name))]), [])"
      using docx assms(6)
      by (simp add: file_branch [OF assms(1-4) truthy] handle_file_def analyze_extracted_def
          chat_respond_def docx_mime_def)
    then show ?thesis
      using docx_named str by metis
  qed
qed

text \<open>Two instances: bytes that are no PDF, sent as a PDF and as a DOCX.\<close>

theorem extractor_failure_names_file_witness:
  "chat_api sample_env
     (Inr (JObj [(''fileData'', JStr ''bm90IGEgZG9jdW1lbnQ=''), (''fileType'', JStr ''application/pdf''),
                 (''fileName'', JStr ''labs.pdf'')]))
     = (Responded 200 (JObj [(''response'', JStr (pdf_not_extracted ''labs.pdf''))]), [])
   \<and> sublist ''labs.pdf'' (pdf_not_extracted ''labs.pdf'')
   \<and> chat_api sample_env
     (Inr (JObj [(''fileData'', JStr ''bm90IGEgZG9jdW1lbnQ=''), (''fileType'', JStr docx_mime),
                 (''fileName'', JStr ''labs.docx'')]))
     = (Responded 200 (JObj [(''response'', JStr (docx_not_extracted ''labs.docx''))]), [])
   \<and> sublist ''labs.docx'' (docx_not_extracted ''labs.docx'')"
proof -
  let ?pdf = "JObj [(''fileData'', JStr ''bm90IGEgZG9jdW1lbnQ=''), (''fileType'', JStr ''application/pdf''),
                 (''fileName'', JStr ''labs.pdf'')]"
  let ?docx = "JObj [(''fileData'', JStr ''bm90IGEgZG9jdW1lbnQ=''), (''fileType'', JStr docx_mime),
                 (''fileName'', JStr ''labs.docx'')]"
  have decoded: "py_b64decode sample_env (JStr ''bm90IGEgZG9jdW1lbnQ='') = Inr ''not a document''"
    by (simp add: py_b64decode_def sample_env_def sample_b64decode_def)
  have pdf_fields:
    "py_get ?pdf ''message'' = Inr JNull"
    "py_get ?pdf ''fileData'' = Inr (JStr ''bm90IGEgZG9jdW1lbnQ='')"
    "py_get ?pdf ''fileType'' = Inr (JStr ''application/pdf'')"
    "py_get ?pdf ''fileName'' = Inr (JStr ''labs.pdf'')"
    "truthy (JStr ''bm90IGEgZG9jdW1lbnQ='')"
    by simp_all
  have pdf_fails:
    "JStr ''application/pdf'' = JStr ''application/pdf''
       \<and> read_pdf_text sample_env ''not a document'' = None
     \<or> JStr ''application/pdf'' = JStr docx_mime
       \<and> read_docx_text sample_env ''not a document'' = None"
    by (simp add: read_pdf_text_def sample_env_def sample_pdf_reader_def ebind_def)
  have docx_fields:
    "py_get ?docx ''message'' = Inr JNull"
    "py_get ?docx ''fileData'' = Inr (JStr ''bm90IGEgZG9jdW1lbnQ='')"
    "py_get ?docx ''fileType'' = Inr (JStr docx_mime)"
    "py_get ?docx ''fileName'' = Inr (JStr ''labs.docx'')"
    "truthy (JStr ''bm90IGEgZG9jdW1lbnQ='')"
    by simp_all
  have docx_fails:
    "JStr docx_mime = JStr ''application/pdf''
       \<and> read_pdf_text sample_env ''not a document'' = None
     \<or> JStr docx_mime = JStr docx_mime
       \<and> read_docx_text sample_env ''not a document'' = None"
    by (simp add: read_docx_text_def sample_env_def)
  obtain m1 where m1: "chat_api sample_env (Inr ?pdf) =
        (Responded 200 (JObj [(''response'', JStr m1)]), [])"
    using extractor_failure_names_file [OF pdf_fields decoded pdf_fails] by blast
  obtain m2 where m2: "chat_api sample_env (Inr ?docx) =
        (Responded 200 (JObj [(''response'', JStr m2)]), [])"
    using extractor_failure_names_file [OF docx_fields decoded docx_fails] by blast
  have pdf_none: "read_pdf_text sample_env ''not a document'' = None"
    by (simp add: read_pdf_text_def sample_env_def sample_pdf_reader_def ebind_def)
  have docx_none: "read_docx_text sample_env ''not a document'' = None"
    by (simp add: read_docx_text_def sample_env_def)
  have h1: "handle_file sample_env (JStr ''bm90IGEgZG9jdW1lbnQ='') (JStr ''application/pdf'')
      (JStr ''labs.pdf'') = (Inr (JStr (pdf_not_extracted ''labs.pdf'')), [])"
    by (simp add: handle_file_def decoded analyze_extracted_def pdf_none)
  have h2: "handle_file sample_env (JStr ''bm90IGEgZG9jdW1lbnQ='') (JStr docx_mime)
      (JStr ''labs.docx'') = (Inr (JStr (docx_not_extracted ''labs.docx'')), [])"
    by (simp add: handle_file_def decoded analyze_extracted_def docx_none docx_mime_def)
  have docx_type: "truthy (JStr docx_mime)"
    by (simp add: docx_mime_def)
  have e1: "chat_api sample_env (Inr ?pdf) =
      (Responded 200 (JObj [(''response'', JStr (pdf_not_extracted ''labs.pdf''))]), [])"
    using m1 by (simp add: file_branch [OF pdf_fields(1-4)] h1 chat_respond_def)
  have e2: "chat_api sample_env (Inr ?docx) =
      (Responded 200 (JObj [(''response'', JStr (docx_not_extracted ''labs.docx''))]), [])"
    using m2 by (simp add: file_branch [OF docx_fields docx_type] h2 chat_respond_def)
  have "sublist ''labs.pdf'' (pdf_not_extracted ''labs.pdf'')"
    unfolding pdf_not_extracted_def by (intro sublist_in_right sublist_in_left sublist_quoted)
  moreover have "sublist ''labs.docx'' (docx_not_extracted ''labs.docx'')"
    unfolding docx_not_extracted_def by (intro sublist_in_right sublist_in_left sublist_quoted)
  ultimately show ?thesis
    using e1 e2 by simp
qed


text \<open>
  \<^bold>\<open>C1.\<close> The claim is that a PDF upload which the extractor parses takes the success
  branch, and that the fixed message naming the file is returned only when the extractor
  signals failure. The handler tests \<^verbatim>\<open>if extracted_text:\<close>, which the empty text fails as
  \<^verbatim>\<open>None\<close> does (the one-page scan below shows it). What holds: the success branch is
  taken exactly when the extracted text is not empty; the fixed message is returned when
  the extractor gives \<^verbatim>\<open>None\<close> or the empty text; and at the extractor a document whose
  pages yield no text is a success, with the empty text as its result.
\<close>

theorem pdf_success_needs_text:
  assumes "py_get data ''message'' = Inr user_message"
    and "py_get data ''fileData'' = Inr file_data"
    and "py_get data ''fileType'' = Inr (JStr ''application/pdf'')"
    and "py_get data ''fileName'' = Inr file_name"
    and "truthy file_data"
    and "py_b64decode env file_data = Inr file_content_bytes"
  shows "(\<forall>extracted. read_pdf_text env file_content_bytes = Some extracted \<and> extracted \<noteq> [] \<longrightarrow>
        chat_api env (Inr data) =
          (Responded 200 (JObj [(''response'',
             fst (analyze_text_content env extracted file_name))]),
           [gemini_request env (text_payload
              (text_content_prompt extracted (py_str (py_repr env) file_name)))]))
    \<and> (read_pdf_text env file_content_bytes = None
         \<or> read_pdf_text env file_content_bytes = Some [] \<longrightarrow>
        chat_api env (Inr data) =
          (Responded 200 (JObj [(''response'',
             JStr (pdf_not_extracted (py_str (py_repr env) file_name)))]), []))
    \<and> (\<forall>pages. pdf_reader env file_content_bytes = Inr pages
          \<and> (\<forall>p \<in> set pages. p = Inr None \<or> p = Inr (Some [])) \<longrightarrow>
        read_pdf_text env file_content_bytes = Some [])"
proof -
  have truthy: "truthy file_data" "truthy (JStr ''application/pdf'')"
    using assms(5) by simp_all
  have api: "chat_api env (Inr data) =
      chat_respond (analyze_extracted env (read_pdf_text env file_content_bytes) file_name
        (pdf_not_extracted (py_str (py_repr env) file_name)))"
    using assms(6) by (simp add: file_branch [OF assms(1-4) truthy] handle_file_def)
  have success: "chat_api env (Inr data) =
          (Responded 200 (JObj [(''response'',
             fst (analyze_text_content env extracted file_name))]),
           [gemini_request env (text_payload
              (text_content_prompt extracted (py_str (py_repr env) file_name)))])"
    if "read_pdf_text env file_content_bytes = Some extracted" "extracted \<noteq> []" for extracted
    using that
    by (simp add: api analyze_extracted_def chat_respond_def returned_def
        analyze_text_content_calls)
  have fallback: "chat_api env (Inr data) =
          (Responded 200 (JObj [(''response'',
             JStr (pdf_not_extracted (py_str (py_repr env) file_name)))]), [])"
    if "read_pdf_text env file_content_bytes = None
         \<or> read_pdf_text env file_content_bytes = Some []"
    using that by (auto simp: api analyze_extracted_def chat_respond_def)
  have blank: "read_pdf_text env file_content_bytes = Some []"
    if "pdf_reader env file_content_bytes = Inr pages"
      "\<forall>p \<in> set pages. p = Inr None \<or> p = Inr (Some [])" for pages
    using that pdf_pages_text_blank [of pages "[]"]
    by (simp add: read_pdf_text_def ebind_def)
  show ?thesis
    using success fallback blank by blast
qed

text \<open>
  The one-page scan without text: the parser accepts it, the extractor returns the empty
  text and not \<^verbatim>\<open>None\<close>, and the handler answers with the fixed message and sends nothing
  to the AI service.
\<close>

theorem blank_pdf_takes_fallback:
  "pdf_reader sample_env ''%PDF-scan'' = Inr [Inr (Some [])]
   \<and> read_pdf_text sample_env ''%PDF-scan'' = Some []
   \<and> chat_api sample_env
       (Inr (JObj [(''fileData'', JStr ''JVBERi1zY2Fu''), (''fileType'', JStr ''application/pdf''),
                   (''fileName'', JStr ''scan.pdf'')]))
       = (Responded 200 (JObj [(''response'', JStr (pdf_not_extracted ''scan.pdf''))]), [])"
proof -
  have parsed: "pdf_reader sample_env ''%PDF-scan'' = Inr [Inr (Some [])]"
    by (simp add: sample_env_def sample_pdf_reader_def)
  have extracted: "read_pdf_text sample_env ''%PDF-scan'' = Some []"
    by (simp add: read_pdf_text_def parsed ebind_def)
  have decoded: "py_b64decode sample_env (JStr ''JVBERi1zY2Fu'') = Inr ''%PDF-scan''"
    by (simp add: py_b64decode_def sample_env_def sample_b64decode_def)
  have "chat_api sample_env
       (Inr (JObj [(''fileData'', JStr ''JVBERi1zY2Fu''), (''fileType'', JStr ''application/pdf''),
                   (''fileName'', JStr ''scan.pdf'')]))
       = (Responded 200 (JObj [(''response'', JStr (pdf_not_extracted ''scan.pdf''))]), [])"
    by (simp add: chat_api_def chat_try_def handle_file_def decoded extracted
        analyze_extracted_def chat_respond_def)
  with parsed extracted show ?thesis by simp
qed

text \<open>Two instances: the report with text, and the scan without.\<close>

theorem pdf_success_needs_text_witness:
  "chat_api sample_env
     (Inr (JObj [(''fileData'', JStr ''JVBERi10ZXh0''), (''fileType'', JStr ''application/pdf''),
                 (''fileName'', JStr ''report.pdf'')]))
     = (Responded 200 (JObj [(''response'', JStr ''Rest and drink water.'')]),
        [gemini_request sample_env
           (text_payload (text_content_prompt ''BP 120/80'' ''report.pdf''))])
   \<and> chat_api sample_env
       (Inr (JObj [(''fileData'', JStr ''JVBERi1zY2Fu''), (''fileType'', JStr ''application/pdf''),
                   (''fileName'', JStr ''scan.pdf'')]))
       = (Responded 200 (JObj [(''response'', JStr (pdf_not_extracted ''scan.pdf''))]), [])"
proof -
  let ?report = "JObj [(''fileData'', JStr ''JVBERi10ZXh0''), (''fileType'', JStr ''application/pdf''),
                 (''fileName'', JStr ''report.pdf'')]"
  let ?scan = "JObj [(''fileData'', JStr ''JVBERi1zY2Fu''), (''fileType'', JStr ''application/pdf''),
                   (''fileName'', JStr ''scan.pdf'')]"
  have report_fields:
    "py_get ?report ''message'' = Inr JNull"
    "py_get ?report ''fileData'' = Inr (JStr ''JVBERi10ZXh0'')"
    "py_get ?report ''fileType'' = Inr (JStr ''application/pdf'')"
    "py_get ?report ''fileName'' = Inr (JStr ''report.pdf'')"
    "truthy (JStr ''JVBERi10ZXh0'')"
    "py_b64decode sample_env (JStr ''JVBERi10ZXh0'') = Inr ''%PDF-text''"
    by (simp_all add: py_b64decode_def sample_env_def sample_b64decode_def)
  have scan_fields:
    "py_get ?scan ''message'' = Inr JNull"
    "py_get ?scan ''fileData'' = Inr (JStr ''JVBERi1zY2Fu'')"
    "py_get ?scan ''fileType'' = Inr (JStr ''application/pdf'')"
    "py_get ?scan ''fileName'' = Inr (JStr ''scan.pdf'')"
    "truthy (JStr ''JVBERi1zY2Fu'')"
    "py_b64decode sample_env (JStr ''JVBERi1zY2Fu'') = Inr ''%PDF-scan''"
    by (simp_all add: py_b64decode_def sample_env_def sample_b64decode_def)
  have report_text: "read_pdf_text sample_env ''%PDF-text'' = Some ''BP 120/80''"
    by (simp add: read_pdf_text_def sample_env_def sample_pdf_reader_def ebind_def)
  have scan_text: "read_pdf_text sample_env ''%PDF-scan'' = Some []"
    by (simp add: read_pdf_text_def sample_env_def sample_pdf_reader_def ebind_def)
  have answer: "fst (analyze_text_content sample_env t n) = JStr ''Rest and drink water.''" for t n
    by (simp add: analyze_text_content_def sample_call_gemini_api)
  have "chat_api sample_env (Inr ?report) =
      (Responded 200 (JObj [(''response'',
         fst (analyze_text_content sample_env ''BP 120/80'' (JStr ''report.pdf'')))]),
       [gemini_request sample_env (text_payload
          (text_content_prompt ''BP 120/80''
             (py_str (py_repr sample_env) (JStr ''report.pdf''))))])"
    using pdf_success_needs_text [OF report_fields, THEN conjunct1] report_text by simp
  moreover have "chat_api sample_env (Inr ?scan) =
      (Responded 200 (JObj [(''response'',
         JStr (pdf_not_extracted (py_str (py_repr sample_env) (JStr ''scan.pdf''))))]), [])"
    using pdf_success_needs_text [OF scan_fields, THEN conjunct2, THEN conjunct1] scan_text
    by simp
  ultimately show ?thesis
    by (simp add: answer)
qed

section \<open>Plain text\<close>

text \<open>
  A step of the decoder covers octets of its input and decodes either nothing or exactly
  the octets it covers. So the decoded text is what remains of the input after deleting
  octets: invalid sequences are dropped, nothing is put in their place, and text that is
  all ASCII is unchanged.
\<close>

lemma utf8_next_covers:
  "snd (utf8_next ch s) \<le> length s
   \<and> (fst (utf8_next ch s) = [] \<or> fst (utf8_next ch s) = ch # take (snd (utf8_next ch s)) s)"
  by (simp add: utf8_next_def split: list.split)

lemma utf8_decode_ignore_subseq: "subseq (utf8_decode_ignore bs) bs"
proof (induction bs rule: utf8_decode_ignore.induct)
  case 1
  show ?case by (simp add: utf8_decode_ignore.simps)
next
  case (2 ch s)
  let ?out = "fst (utf8_next ch s)" and ?n = "snd (utf8_next ch s)"
  have "subseq ?out (ch # take ?n s)"
    using utf8_next_covers [of ch s] by auto
  then have "subseq (?out @ utf8_decode_ignore (drop ?n s)) ((ch # take ?n s) @ drop ?n s)"
    using 2 by (rule list_emb_append_mono)
  then show ?case
    by (simp add: utf8_decode_ignore.simps)
qed

lemma utf8_decode_ignore_ascii:
  "\<forall>c \<in> set bs. (of_char c :: nat) < 0x80 \<Longrightarrow> utf8_decode_ignore bs = bs"
  by (induction bs) (simp_all add: utf8_decode_ignore.simps utf8_next_def)

text \<open>
  \<^bold>\<open>C6.\<close> A \<^verbatim>\<open>text/plain\<close> upload, whatever bytes the file data decodes to: decoding them
  as UTF-8 with \<^verbatim>\<open>errors='ignore'\<close> is a total function, so the step raises nothing; the
  octets of invalid sequences are dropped; and the decoded text, empty or not, goes into
  the text-content prompt, which is sent to the AI service. The response has status 200.
\<close>

theorem plain_text_always_analyzed:
  assumes "py_get data ''message'' = Inr user_message"
    and "py_get data ''fileData'' = Inr file_data"
    and "py_get data ''fileType'' = Inr (JStr ''text/plain'')"
    and "py_get data ''fileName'' = Inr file_name"
    and "truthy file_data"
    and "py_b64decode env file_data = Inr file_content_bytes"
  shows "chat_api env (Inr data) =
      (Responded 200 (JObj [(''response'',
         fst (analyze_text_content env (utf8_decode_ignore file_content_bytes) file_name))]),
       [gemini_request env (text_payload
          (text_content_prompt (utf8_decode_ignore file_content_bytes)
             (py_str (py_repr env) file_name)))])
    \<and> subseq (utf8_decode_ignore file_content_bytes) file_content_bytes"
proof -
  have truthy: "truthy file_data" "truthy (JStr ''text/plain'')"
    using assms(5) by simp_all
  have "handle_file env file_data (JStr ''text/plain'') file_name =
      returned (analyze_text_content env (utf8_decode_ignore file_content_bytes) file_name)"
    using assms(6) by (simp add: handle_file_def docx_mime_def)
  then show ?thesis
    by (simp add: file_branch [OF assms(1-4) truthy] chat_respond_def returned_def
        analyze_text_content_calls utf8_decode_ignore_subseq)
qed

text \<open>An instance: the bytes \<^verbatim>\<open>41 FF 42\<close>, of which \<^verbatim>\<open>FF\<close> is invalid, decode to \<^verbatim>\<open>AB\<close>.\<close>

theorem plain_text_always_analyzed_witness:
  "chat_api sample_env
     (Inr (JObj [(''fileData'', JStr ''Qf9C''), (''fileType'', JStr ''text/plain''),
                 (''fileName'', JStr ''note.txt'')]))
   = (Responded 200 (JObj [(''response'', JStr ''Rest and drink water.'')]),
      [gemini_request sample_env (text_payload (text_content_prompt ''AB'' ''note.txt''))])
   \<and> utf8_decode_ignore [CHR ''A'', CHR 0xFF, CHR ''B''] = ''AB''"
proof -
  let ?data = "JObj [(''fileData'', JStr ''Qf9C''), (''fileType'', JStr ''text/plain''),
                 (''fileName'', JStr ''note.txt'')]"
  have fields:
    "py_get ?data ''message'' = Inr JNull"
    "py_get ?data ''fileData'' = Inr (JStr ''Qf9C'')"
    "py_get ?data ''fileType'' = Inr (JStr ''text/plain'')"
    "py_get ?data ''fileName'' = Inr (JStr ''note.txt'')"
    "truthy (JStr ''Qf9C'')"
    "py_b64decode sample_env (JStr ''Qf9C'') = Inr [CHR ''A'', CHR 0xFF, CHR ''B'']"
    by (simp_all add: py_b64decode_def sample_env_def sample_b64decode_def)
  have decoded: "utf8_decode_ignore [CHR ''A'', CHR 0xFF, CHR ''B''] = ''AB''"
    by (simp add: utf8_decode_ignore.simps utf8_next_def)
  have answer: "fst (analyze_text_content sample_env t n) = JStr ''Rest and drink water.''" for t n
    by (simp add: analyze_text_content_def sample_call_gemini_api)
  have repr: "py_str (py_repr sample_env) (JStr ''note.txt'') = ''note.txt''"
    by simp
  show ?thesis
    using plain_text_always_analyzed [OF fields]
    by (simp add: decoded answer repr)
qed

section \<open>The fallbacks of the text gateway\<close>

text \<open>
  Reading the answer raises only exceptions of the interpreter (a missing attribute, key
  or index, a value that cannot be subscripted), none of them a \<^verbatim>\<open>RequestException\<close>; so
  they reach the second handler.
\<close>

lemma ebind_raises:
  "ebind m f = Inl e \<Longrightarrow> m = Inl e \<or> (\<exists>x. m = Inr x \<and> f x = Inl e)"
  by (cases m) (simp_all add: ebind_def)

lemma py_get_raises: "py_get v k = Inl e \<Longrightarrow> \<not> is_RequestException e"
  by (cases v) (auto simp: no_attribute_def is_RequestException_def split: option.splits)

lemma py_getitem_str_raises: "py_getitem_str v k = Inl e \<Longrightarrow> \<not> is_RequestException e"
  by (cases v) (auto simp: not_subscriptable_def is_RequestException_def split: option.splits)

lemma py_getitem_zero_raises: "py_getitem_zero v = Inl e \<Longrightarrow> \<not> is_RequestException e"
  by (cases v) (auto simp: not_subscriptable_def is_RequestException_def split: list.splits)

lemma has_parts_raises: "has_parts result = Inl e \<Longrightarrow> \<not> is_RequestException e"
  unfolding has_parts_def
  by (auto dest!: ebind_raises split: if_splits)
    (blast dest: py_get_raises py_getitem_str_raises py_getitem_zero_raises)+

lemma first_text_raises: "first_text result = Inl e \<Longrightarrow> \<not> is_RequestException e"
  unfolding first_text_def
  by (auto dest!: ebind_raises)
    (blast dest: py_get_raises py_getitem_str_raises py_getitem_zero_raises)+

lemma has_parts_no_candidates:
  "map_of kvs ''candidates'' = None \<Longrightarrow> has_parts (JObj kvs) = Inr False"
  by (simp add: has_parts_def ebind_def)

lemma fallbacks_distinct:
  "no_connection \<noteq> unexpected_response"
  "no_connection \<noteq> internal_error"
  "unexpected_response \<noteq> internal_error"
  by (simp_all add: no_connection_def unexpected_response_def internal_error_def)

lemma call_gemini_api_value:
  "fst (call_gemini_api env prompt model) =
     gemini_except no_connection internal_error
       (gemini_try env
          \<lparr>url = gemini_url env model, headers = json_headers, payload = text_payload prompt\<rparr>
          unexpected_response)"
  by (simp add: call_gemini_api_def Let_def)

text \<open>
  \<^bold>\<open>C3.\<close> The claim is that \<^verbatim>\<open>call_gemini_api\<close> returns the connectivity fallback on any
  transport error or non-2xx status, the malformed-response fallback on a 2xx response
  whose JSON has not the expected shape, a third fallback on any other exception, and that
  the three differ. It fails on two points, shown on two answers below:
  \<^verbatim>\<open>raise_for_status\<close> raises for the statuses 400 to 599 only, and an answer whose shape
  makes the test of the shape itself raise gets the third fallback. What holds:
  \<^item> an exception of \<^verbatim>\<open>requests.post\<close>, or of \<^verbatim>\<open>response.json()\<close>, gives the connectivity
    fallback when it is a \<^verbatim>\<open>RequestException\<close> and the internal-error fallback otherwise;
  \<^item> a status from 400 to 599 gives the connectivity fallback;
  \<^item> on any other status, an answer on which the test of line 68 is false (an object
    without truthy \<^verbatim>\<open>candidates\<close>, or whose first candidate has no truthy \<^verbatim>\<open>content\<close>, or
    whose content has no truthy \<^verbatim>\<open>parts\<close>) gives the malformed-response fallback;
  \<^item> an answer on which that test, or the extraction of the text after it, raises gives the
    internal-error fallback;
  \<^item> otherwise the text of the first part is returned;
  \<^item> the function makes one request, never raises, and the three fallbacks are pairwise
    distinct.
\<close>

theorem call_gemini_api_fallbacks:
  assumes "req =
      \<lparr>url = gemini_url env model, headers = json_headers, payload = text_payload prompt\<rparr>"
    and "answer = fst (call_gemini_api env prompt model)"
  shows "(\<forall>e. requests_post env req = PostRaises e \<longrightarrow>
        answer = JStr (if is_RequestException e then no_connection else internal_error))
    \<and> (\<forall>status body. requests_post env req = Response status body
          \<and> 400 \<le> status \<and> status < 600 \<longrightarrow> answer = JStr no_connection)
    \<and> (\<forall>status e. requests_post env req = Response status (Inl e)
          \<and> (status < 400 \<or> 600 \<le> status) \<longrightarrow>
        answer = JStr (if is_RequestException e then no_connection else internal_error))
    \<and> (\<forall>status result. requests_post env req = Response status (Inr result)
          \<and> (status < 400 \<or> 600 \<le> status) \<and> has_parts result = Inr False \<longrightarrow>
        answer = JStr unexpected_response)
    \<and> (\<forall>status result e. requests_post env req = Response status (Inr result)
          \<and> (status < 400 \<or> 600 \<le> status)
          \<and> (has_parts result = Inl e
               \<or> has_parts result = Inr True \<and> first_text result = Inl e) \<longrightarrow>
        answer = JStr internal_error)
    \<and> (\<forall>status result reply. requests_post env req = Response status (Inr result)
          \<and> (status < 400 \<or> 600 \<le> status)
          \<and> has_parts result = Inr True \<and> first_text result = Inr reply \<longrightarrow>
        answer = reply)
    \<and> (\<forall>kvs. map_of kvs ''candidates'' = None \<longrightarrow> has_parts (JObj kvs) = Inr False)
    \<and> snd (call_gemini_api env prompt model) = [req]
    \<and> no_connection \<noteq> unexpected_response
    \<and> no_connection \<noteq> internal_error
    \<and> unexpected_response \<noteq> internal_error"
proof -
  have answer: "answer = gemini_except no_connection internal_error
      (gemini_try env req unexpected_response)"
    by (simp add: assms call_gemini_api_value)
  have raised: "answer = JStr (if is_RequestException e then no_connection else internal_error)"
    if "requests_post env req = PostRaises e" for e
    using that by (simp add: answer gemini_try_def gemini_except_def)
  have refused: "answer = JStr no_connection"
    if "requests_post env req = Response status body" "400 \<le> status" "status < 600"
    for status body
    using that
    by (simp add: answer gemini_try_def gemini_except_def raise_for_status_def
        is_RequestException_def)
  have passes: "raise_for_status status = None" if "status < 400 \<or> 600 \<le> status" for status
    using that by (auto simp: raise_for_status_def)
  have not_json: "answer = JStr (if is_RequestException e then no_connection else internal_error)"
    if "requests_post env req = Response status (Inl e)" "status < 400 \<or> 600 \<le> status"
    for status e
    using that(1) passes [OF that(2)]
    by (simp add: answer gemini_try_def gemini_except_def ebind_def)
  have malformed: "answer = JStr unexpected_response"
    if "requests_post env req = Response status (Inr result)" "status < 400 \<or> 600 \<le> status"
      "has_parts result = Inr False" for status result
    using that(1,3) passes [OF that(2)]
    by (simp add: answer gemini_try_def gemini_except_def ebind_def)
  have internal: "answer = JStr internal_error"
    if "requests_post env req = Response status (Inr result)" "status < 400 \<or> 600 \<le> status"
      "has_parts result = Inl e \<or> has_parts result = Inr True \<and> first_text result = Inl e"
    for status result e
  proof -
    have "gemini_try env req unexpected_response = Inl e"
      using that(1,3) passes [OF that(2)] by (auto simp: gemini_try_def ebind_def)
    moreover have "\<not> is_RequestException e"
      using that(3) has_parts_raises first_text_raises by blast
    ultimately show ?thesis
      by (simp add: answer gemini_except_def)
  qed
  have extracted: "answer = reply"
    if "requests_post env req = Response status (Inr result)" "status < 400 \<or> 600 \<le> status"
      "has_parts result = Inr True" "first_text result = Inr reply" for status result reply
    using that(1,3,4) passes [OF that(2)]
    by (simp add: answer gemini_try_def gemini_except_def ebind_def)
  have sent: "snd (call_gemini_api env prompt model) = [req]"
    by (simp add: assms(1) call_gemini_api_calls)
  show ?thesis
    using raised refused not_json malformed internal extracted sent has_parts_no_candidates
      fallbacks_distinct
    by (intro conjI allI impI) (blast | elim conjE)+
qed

text \<open>
  A 200 response whose JSON is the empty array has not the expected shape and gets the
  internal-error fallback, not the malformed-response one; a response with status 300 and
  the empty object gets the malformed-response fallback, not the connectivity one.
\<close>

theorem malformed_answer_internal_error:
  "fst (call_gemini_api (sample_env\<lparr>requests_post := \<lambda>r. Response 200 (Inr (JArr []))\<rparr>)
          ''fever'' ''gemini-2.5-flash'') = JStr internal_error
   \<and> internal_error \<noteq> unexpected_response
   \<and> fst (call_gemini_api (sample_env\<lparr>requests_post := \<lambda>r. Response 300 (Inr (JObj []))\<rparr>)
          ''fever'' ''gemini-2.5-flash'') = JStr unexpected_response
   \<and> unexpected_response \<noteq> no_connection"
  by (simp add: call_gemini_api_value gemini_try_def gemini_except_def raise_for_status_def
      ebind_def has_parts_def no_attribute_def is_RequestException_def
      no_connection_def unexpected_response_def internal_error_def)

text \<open>
  Instances: a refused connection, a 503, the empty object, the empty array, and the
  sample service's answer.
\<close>

theorem call_gemini_api_fallbacks_witness:
  "fst (call_gemini_api
          (sample_env\<lparr>requests_post :=
             \<lambda>r. PostRaises (PyExn RequestException ''Connection refused'')\<rparr>)
          ''fever'' ''gemini-2.5-flash'') = JStr no_connection
   \<and> fst (call_gemini_api
          (sample_env\<lparr>requests_post := \<lambda>r. Response 503 (Inr (JObj []))\<rparr>)
          ''fever'' ''gemini-2.5-flash'') = JStr no_connection
   \<and> fst (call_gemini_api
          (sample_env\<lparr>requests_post := \<lambda>r. Response 200 (Inr (JObj []))\<rparr>)
          ''fever'' ''gemini-2.5-flash'') = JStr unexpected_response
   \<and> fst (call_gemini_api
          (sample_env\<lparr>requests_post := \<lambda>r. Response 200 (Inr (JArr []))\<rparr>)
          ''fever'' ''gemini-2.5-flash'') = JStr internal_error
   \<and> fst (call_gemini_api sample_env ''fever'' ''gemini-2.5-flash'')
       = JStr ''Rest and drink water.''"
proof -
  note fallbacks = call_gemini_api_fallbacks [OF refl refl]
  have refused: "fst (call_gemini_api
          (sample_env\<lparr>requests_post :=
             \<lambda>r. PostRaises (PyExn RequestException ''Connection refused'')\<rparr>)
          ''fever'' ''gemini-2.5-flash'') = JStr no_connection"
    using fallbacks
      [where env = "sample_env\<lparr>requests_post :=
             \<lambda>r. PostRaises (PyExn RequestException ''Connection refused'')\<rparr>"
        and prompt = "''fever''" and model = "''gemini-2.5-flash''", THEN conjunct1]
    by (simp add: is_RequestException_def)
  have unavailable: "fst (call_gemini_api
          (sample_env\<lparr>requests_post := \<lambda>r. Response 503 (Inr (JObj []))\<rparr>)
          ''fever'' ''gemini-2.5-flash'') = JStr no_connection"
    using fallbacks
      [where env = "sample_env\<lparr>requests_post := \<lambda>r. Response 503 (Inr (JObj []))\<rparr>"
        and prompt = "''fever''" and model = "''gemini-2.5-flash''",
        THEN conjunct2, THEN conjunct1]
    by simp
  have empty_object: "has_parts (JObj []) = Inr False"
    by (simp add: has_parts_def ebind_def)
  have malformed: "fst (call_gemini_api
          (sample_env\<lparr>requests_post := \<lambda>r. Response 200 (Inr (JObj []))\<rparr>)
          ''fever'' ''gemini-2.5-flash'') = JStr unexpected_response"
    using fallbacks
      [where env = "sample_env\<lparr>requests_post := \<lambda>r. Response 200 (Inr (JObj []))\<rparr>"
        and prompt = "''fever''" and model = "''gemini-2.5-flash''",
        THEN conjunct2, THEN conjunct2, THEN conjunct2, THEN conjunct1]
    by (simp add: empty_object)
  have array: "has_parts (JArr []) = Inl (no_attribute (JArr []) ''get'')"
    by (simp add: has_parts_def ebind_def)
  have internal: "fst (call_gemini_api
          (sample_env\<lparr>requests_post := \<lambda>r. Response 200 (Inr (JArr []))\<rparr>)
          ''fever'' ''gemini-2.5-flash'') = JStr internal_error"
    using fallbacks
      [where env = "sample_env\<lparr>requests_post := \<lambda>r. Response 200 (Inr (JArr []))\<rparr>"
        and prompt = "''fever''" and model = "''gemini-2.5-flash''",
        THEN conjunct2, THEN conjunct2, THEN conjunct2, THEN conjunct2, THEN conjunct1]
    by (simp add: array)
  have answered: "fst (call_gemini_api sample_env ''fever'' ''gemini-2.5-flash'')
       = JStr ''Rest and drink water.''"
    using fallbacks
      [where env = sample_env and prompt = "''fever''" and model = "''gemini-2.5-flash''",
        THEN conjunct2, THEN conjunct2, THEN conjunct2, THEN conjunct2, THEN conjunct2,
        THEN conjunct1]
    by (simp add: sample_env_def sample_answer_text)
  show ?thesis
    using refused unavailable malformed internal answered by simp
qed

end
